theory Spec2Isabelle
  imports Main "HOL-Library.AList" "HOL-Library.Word"
begin

section \<open>Values, exceptions and the runtime\<close>

text \<open>
  The gateway is TypeScript on Node. Payloads are untyped JavaScript values (\<open>any\<close>);
  the model keeps the shapes the code inspects: \<open>undefined\<close>, \<open>null\<close>, booleans,
  integers, strings and objects (an association list in insertion order, as the
  property order of an object is). Arrays and non-integral numbers are not modelled.
  A JavaScript string and a \<open>Buffer\<close> are both byte strings here.
\<close>

datatype json =
    JUndefined
  | JNull
  | JBool bool
  | JNum int
  | JStr string
  | JObj "(string \<times> json) list"

type_synonym buffer = string

text \<open>Thrown values. \<open>message\<close> is the \<open>.message\<close> property the catch blocks read.\<close>

datatype exn = Error string | TypeError string | SyntaxError string

fun message :: "exn \<Rightarrow> string" where
  "message (Error m) = m"
| "message (TypeError m) = m"
| "message (SyntaxError m) = m"

text \<open>JavaScript truthiness, as \<open>if (x)\<close>, \<open>x || y\<close> and \<open>x ? a : b\<close> test it.\<close>

fun truthy :: "json \<Rightarrow> bool" where
  "truthy JUndefined = False"
| "truthy JNull = False"
| "truthy (JBool b) = b"
| "truthy (JNum n) = (n \<noteq> 0)"
| "truthy (JStr s) = (s \<noteq> [])"
| "truthy (JObj kvs) = True"

text \<open>\<open>a || b\<close> and \<open>a ?? b\<close> on values.\<close>

definition js_or :: "json \<Rightarrow> json \<Rightarrow> json" where
  "js_or a b = (if truthy a then a else b)"

definition nullish :: "json \<Rightarrow> json \<Rightarrow> json" where
  "nullish a b = (if a = JUndefined \<or> a = JNull then b else a)"

text \<open>
  Property read \<open>o.k\<close> on a value that is not \<open>null\<close> or \<open>undefined\<close>: the field of
  an object, \<open>undefined\<close> when it is missing or when \<open>o\<close> is a primitive.
\<close>

fun field :: "json \<Rightarrow> string \<Rightarrow> json" where
  "field (JObj kvs) k = (case map_of kvs k of None \<Rightarrow> JUndefined | Some v \<Rightarrow> v)"
| "field _ k = JUndefined"

text \<open>
  What the code takes from its platform and its libraries: \<open>JSON.stringify\<close> and
  \<open>JSON.parse\<close> (\<open>Inl\<close> is the exception it throws), \<open>xxhash.h32(buffer, seed)\<close>,
  base64 in both directions, the speech engine behind \<open>PollyClient.send\<close>, and
  \<open>process.env\<close>. They are parameters of the model: no claim is settled by how
  they are implemented.
\<close>

record synth_command =
  Text :: json
  OutputFormat :: string
  VoiceId :: string
  Engine :: string
  SampleRate :: string
  TextType :: string

text \<open>
  The engine's answer: \<open>AudioStream\<close> may be missing; a stream yields its chunks and
  may then fail (the \<open>for await\<close> loop throws what the stream raises).
\<close>

datatype audio_stream = AudioStream "buffer list" "exn option"

record runtime =
  json_stringify :: "json \<Rightarrow> string"
  json_parse :: "string \<Rightarrow> exn + json"
  xxh32 :: "buffer \<Rightarrow> 32 word \<Rightarrow> 32 word"
  to_base64 :: "buffer \<Rightarrow> string"
  from_base64 :: "string \<Rightarrow> buffer"
  polly_send :: "synth_command \<Rightarrow> exn + audio_stream option"
  process_env :: "string \<rightharpoonup> string"

section \<open>The Redis client\<close>

text \<open>
  The store behind \<open>ioredis\<close>: a key holds a value and the time (in milliseconds)
  at which it expires. \<open>fault\<close> is the error every command is rejected with while the
  store cannot be reached (\<open>enableOfflineQueue: false\<close> makes a command fail at once
  instead of waiting); \<open>None\<close> when the store answers.
\<close>

record redis =
  fault :: "exn option"
  kv :: "string \<rightharpoonup> (string \<times> nat)"
  rclock :: nat

text \<open>
  \<open>redis.get(key)\<close>: \<open>null\<close> for a key that is missing or has expired. Redis
  takes a key as expired once its clock is past the key's expiry time.
\<close>

definition redis_get :: "string \<Rightarrow> redis \<Rightarrow> exn + string option" where
  "redis_get k r =
     (case fault r of
        Some e \<Rightarrow> Inl e
      | None \<Rightarrow>
          Inr (case kv r k of
                 None \<Rightarrow> None
               | Some (v, expires) \<Rightarrow> if rclock r \<le> expires then Some v else None))"

definition redis_getBuffer :: "string \<Rightarrow> redis \<Rightarrow> exn + buffer option" where
  "redis_getBuffer k r = redis_get k r"

text \<open>\<open>redis.set(key, value, 'EX', seconds)\<close>.\<close>

definition redis_set :: "string \<Rightarrow> string \<Rightarrow> nat \<Rightarrow> redis \<Rightarrow> exn option \<times> redis" where
  "redis_set k v seconds r =
     (case fault r of
        Some e \<Rightarrow> (Some e, r)
      | None \<Rightarrow> (None, r\<lparr>kv := (kv r)(k \<mapsto> (v, rclock r + 1000 * seconds))\<rparr>))"

text \<open>Time passing: \<open>d\<close> milliseconds.\<close>

definition elapse :: "nat \<Rightarrow> redis \<Rightarrow> redis" where
  "elapse d r = r\<lparr>rclock := rclock r + d\<rparr>"

section \<open>The cache classes\<close>

text \<open>
  The classes of the cache module, each over the injected Redis client: a key scheme,
  \<open>get\<close> and \<open>set\<close> with the role's TTL in seconds (\<open>isDuplicate\<close> for the dedup
  cache). The sources hold two classes named \<open>SessionCache\<close>: one that only talks
  to the store, and the one in \<open>session.cache.ts\<close> that also keeps an in-process map.
  A method returns \<open>Inl\<close> (or \<open>Some\<close>, for a method without a result) of what it
  throws.
\<close>

subsection \<open>ExactResponseCache\<close>

definition ExactResponseCache_key :: "string \<Rightarrow> string \<Rightarrow> string" where
  "ExactResponseCache_key lang txt = ''exact_response:'' @ lang @ '':'' @ txt"

definition ExactResponseCache_get ::
  "runtime \<Rightarrow> string \<Rightarrow> string \<Rightarrow> redis \<Rightarrow> exn + json" where
  "ExactResponseCache_get R lang txt r =
     (case redis_get (ExactResponseCache_key lang txt) r of
        Inl e \<Rightarrow> Inl e
      | Inr None \<Rightarrow> Inr JNull
      | Inr (Some d) \<Rightarrow> if d \<noteq> [] then json_parse R d else Inr JNull)"

definition ExactResponseCache_set ::
  "runtime \<Rightarrow> string \<Rightarrow> string \<Rightarrow> json \<Rightarrow> redis \<Rightarrow> exn option \<times> redis" where
  "ExactResponseCache_set R lang txt response r =
     redis_set (ExactResponseCache_key lang txt) (json_stringify R response) 60 r"

subsection \<open>SttRawCache\<close>

definition SttRawCache_key :: "string \<Rightarrow> string" where
  "SttRawCache_key audioHash = ''stt_raw:'' @ audioHash"

definition SttRawCache_get :: "string \<Rightarrow> redis \<Rightarrow> exn + string option" where
  "SttRawCache_get audioHash r = redis_get (SttRawCache_key audioHash) r"

definition SttRawCache_set :: "string \<Rightarrow> string \<Rightarrow> redis \<Rightarrow> exn option \<times> redis" where
  "SttRawCache_set audioHash transcript r =
     redis_set (SttRawCache_key audioHash) transcript 300 r"

subsection \<open>TtsRelayCache\<close>

definition TtsRelayCache_key :: "string \<Rightarrow> string" where
  "TtsRelayCache_key responseId = ''tts_relay:'' @ responseId"

definition TtsRelayCache_get :: "string \<Rightarrow> redis \<Rightarrow> exn + buffer option" where
  "TtsRelayCache_get responseId r = redis_getBuffer (TtsRelayCache_key responseId) r"

definition TtsRelayCache_set :: "string \<Rightarrow> buffer \<Rightarrow> redis \<Rightarrow> exn option \<times> redis" where
  "TtsRelayCache_set responseId audio r =
     redis_set (TtsRelayCache_key responseId) audio 300 r"

subsection \<open>SessionCache, the store-only variant\<close>

text \<open>Each of the two classes has its own private \<open>key\<close> method.\<close>

definition StoreOnlySessionCache_key :: "string \<Rightarrow> string" where
  "StoreOnlySessionCache_key sessionId = ''session:'' @ sessionId"

definition StoreOnlySessionCache_get :: "runtime \<Rightarrow> string \<Rightarrow> redis \<Rightarrow> exn + json" where
  "StoreOnlySessionCache_get R sessionId r =
     (case redis_get (StoreOnlySessionCache_key sessionId) r of
        Inl e \<Rightarrow> Inl e
      | Inr None \<Rightarrow> Inr JNull
      | Inr (Some d) \<Rightarrow> if d \<noteq> [] then json_parse R d else Inr JNull)"

definition StoreOnlySessionCache_set ::
  "runtime \<Rightarrow> string \<Rightarrow> json \<Rightarrow> redis \<Rightarrow> exn option \<times> redis" where
  "StoreOnlySessionCache_set R sessionId payload r =
     redis_set (StoreOnlySessionCache_key sessionId) (json_stringify R payload) 1800 r"

subsection \<open>SessionCache, the variant with the in-process map\<close>

text \<open>
  \<open>memory\<close> is the \<open>Map\<close> of the class. \<open>memory.get(id) ?? null\<close> is \<open>memory_get\<close>.
  Both methods wrap the store call in \<open>try\<close>/\<open>catch\<close>; the result type still has
  room for an exception, so that "does not throw" is a statement about the code.
\<close>

type_synonym memory = "string \<rightharpoonup> json"

definition SessionCache_key :: "string \<Rightarrow> string" where
  "SessionCache_key sessionId = ''session:'' @ sessionId"

definition memory_get :: "memory \<Rightarrow> string \<Rightarrow> json" where
  "memory_get m sessionId =
     nullish (case m sessionId of None \<Rightarrow> JUndefined | Some v \<Rightarrow> v) JNull"

definition SessionCache_get ::
  "runtime \<Rightarrow> string \<Rightarrow> memory \<times> redis \<Rightarrow> exn + json" where
  "SessionCache_get R sessionId c =
     (case (case redis_get (SessionCache_key sessionId) (snd c) of
              Inl e \<Rightarrow> Inl e
            | Inr None \<Rightarrow> Inr (memory_get (fst c) sessionId)
            | Inr (Some d) \<Rightarrow>
                if d \<noteq> [] then json_parse R d else Inr (memory_get (fst c) sessionId))
      of
        Inl e \<Rightarrow> Inr (memory_get (fst c) sessionId)
      | Inr v \<Rightarrow> Inr v)"

definition SessionCache_set ::
  "runtime \<Rightarrow> string \<Rightarrow> json \<Rightarrow> memory \<times> redis \<Rightarrow> exn option \<times> memory \<times> redis" where
  "SessionCache_set R sessionId payload c =
     (let m = (fst c)(sessionId \<mapsto> payload) in
      case redis_set (SessionCache_key sessionId) (json_stringify R payload) 1800 (snd c) of
        (Some e, r) \<Rightarrow> (None, m, r)
      | (None, r) \<Rightarrow> (None, m, r))"

subsection \<open>AudioDedupCache\<close>

text \<open>\<open>n.toString(16)\<close>: lower-case digits, no leading zero.\<close>

definition digit_char :: "nat \<Rightarrow> char" where
  "digit_char d = ''0123456789abcdef'' ! (d mod 16)"

function toString_radix :: "nat \<Rightarrow> nat \<Rightarrow> string" where
  "toString_radix b n =
     (if b < 2 \<or> n < b then [digit_char n]
      else toString_radix b (n div b) @ [digit_char (n mod b)])"
  by pat_completeness auto
termination
  by (relation "measure snd") auto

declare toString_radix.simps [simp del]

definition AudioDedupCache_hash :: "runtime \<Rightarrow> buffer \<Rightarrow> string" where
  "AudioDedupCache_hash R b = toString_radix 16 (unat (xxh32 R b 0xabcd))"

definition AudioDedupCache_key :: "runtime \<Rightarrow> string \<Rightarrow> buffer \<Rightarrow> string" where
  "AudioDedupCache_key R sessionId chunk =
     ''audio_chunk:'' @ sessionId @ '':'' @ AudioDedupCache_hash R chunk"

definition AudioDedupCache_isDuplicate ::
  "runtime \<Rightarrow> string \<Rightarrow> buffer \<Rightarrow> redis \<Rightarrow> (exn + bool) \<times> redis" where
  "AudioDedupCache_isDuplicate R sessionId chunk r =
     (case redis_get (AudioDedupCache_key R sessionId chunk) r of
        Inl e \<Rightarrow> (Inl e, r)
      | Inr (Some d) \<Rightarrow>
          if d \<noteq> [] then (Inr True, r)
          else (case redis_set (AudioDedupCache_key R sessionId chunk) ''1'' 2 r of
                  (Some e, r') \<Rightarrow> (Inl e, r')
                | (None, r') \<Rightarrow> (Inr False, r'))
      | Inr None \<Rightarrow>
          (case redis_set (AudioDedupCache_key R sessionId chunk) ''1'' 2 r of
             (Some e, r') \<Rightarrow> (Inl e, r')
           | (None, r') \<Rightarrow> (Inr False, r')))"

section \<open>PollyService\<close>

text \<open>
  The constructor reads the credentials from \<open>process.env\<close>. \<open>!x\<close> holds for a
  variable that is not set and for one set to the empty string.
\<close>

record polly_client =
  region :: string
  accessKeyId :: string
  secretAccessKey :: string

definition env_falsy :: "string option \<Rightarrow> bool" where
  "env_falsy x = (case x of None \<Rightarrow> True | Some v \<Rightarrow> v = [])"

definition env_or :: "string option \<Rightarrow> string \<Rightarrow> string" where
  "env_or x dflt = (case x of None \<Rightarrow> dflt | Some v \<Rightarrow> if v = [] then dflt else v)"

definition PollyService_constructor :: "runtime \<Rightarrow> exn + polly_client" where
  "PollyService_constructor R =
     (if env_falsy (process_env R ''AWS_ACCESS_KEY_ID'')
         \<or> env_falsy (process_env R ''AWS_SECRET_ACCESS_KEY'')
      then Inl (Error ''AWS credentials not found in environment variables'')
      else Inr \<lparr>region = env_or (process_env R ''AWS_REGION'') ''us-east-1'',
                accessKeyId = env_or (process_env R ''AWS_ACCESS_KEY_ID'') [],
                secretAccessKey = env_or (process_env R ''AWS_SECRET_ACCESS_KEY'') []\<rparr>)"

section \<open>The gateway's world\<close>

text \<open>
  Everything the handlers read and write: the gateway's \<open>activeFrontendClient\<close>, the
  ids in \<open>server.sockets.sockets\<close> (a \<open>Map\<close>, so in insertion order), the socket of
  \<open>PythonSocket\<close> (\<open>null\<close> before \<open>connect()\<close>), the session cache's in-process map
  and the Redis store. The effects are logs: what was emitted to which frontend client,
  what was emitted to Python, and the error and warning lines written to the console
  (informational lines, that is \<open>console.log\<close> and the Nest logger's \<open>log\<close> and
  \<open>debug\<close>, and the pictograph that starts a line are left out). \<open>timeline\<close> holds
  the same effects, and the calls of the speech engine, in the one order in which they
  happen. \<open>Date.now()\<close> reads the store's clock: the model has one clock.

  A handler is \<open>async\<close>; a handler function of the model is one call run to its end,
  with nothing else in between.
\<close>

record py_socket =
  connected :: bool
  socket_id :: "string option"

datatype logged = LStr string | LJson json | LExn exn

datatype log = console_error "logged list" | console_warn "logged list" | logger_error string

datatype effect =
    to_client string string json
  | to_python string json
  | to_console log
  | to_engine synth_command

record world =
  activeFrontendClient :: "string option"
  server_sockets :: "string list"
  python_socket :: "py_socket option"
  sessionCache_memory :: memory
  redis_store :: redis
  client_emitted :: "(string \<times> string \<times> json) list"
  python_emitted :: "(string \<times> json) list"
  console :: "log list"
  timeline :: "effect list"

definition client_emit :: "string \<Rightarrow> string \<Rightarrow> json \<Rightarrow> world \<Rightarrow> world" where
  "client_emit c ev payload w =
     w\<lparr>client_emitted := client_emitted w @ [(c, ev, payload)],
       timeline := timeline w @ [to_client c ev payload]\<rparr>"

definition console_log :: "log \<Rightarrow> world \<Rightarrow> world" where
  "console_log l w = w\<lparr>console := console w @ [l], timeline := timeline w @ [to_console l]\<rparr>"

section \<open>PollyService.synthesizeSpeech\<close>

text \<open>
  The command is built and sent to the engine (\<open>this.polly.send(command)\<close>): the call
  goes on the timeline, whatever its outcome.
\<close>

definition SynthesizeSpeechCommand :: "json \<Rightarrow> string \<Rightarrow> synth_command" where
  "SynthesizeSpeechCommand txt voiceId =
     \<lparr>Text = txt, OutputFormat = ''mp3'', VoiceId = voiceId,
      Engine = ''neural'', SampleRate = ''24000'', TextType = ''text''\<rparr>"

definition synthesizeSpeech ::
  "runtime \<Rightarrow> json \<Rightarrow> string \<Rightarrow> world \<Rightarrow> (exn + buffer) \<times> world" where
  "synthesizeSpeech R txt voiceId w =
     (let command = SynthesizeSpeechCommand txt voiceId;
          w0 = w\<lparr>timeline := timeline w @ [to_engine command]\<rparr>
      in case (case polly_send R command of
                 Inl e \<Rightarrow> Inl e
               | Inr (Some (AudioStream chunks failure)) \<Rightarrow>
                   (case failure of Some e \<Rightarrow> Inl e | None \<Rightarrow> Inr (concat chunks))
               | Inr None \<Rightarrow> Inl (Error ''No audio stream in response''))
         of
           Inl err \<Rightarrow>
             (Inl err, console_log (logger_error (''Polly TTS error: '' @ message err)) w0)
         | Inr audioBuffer \<Rightarrow> (Inr audioBuffer, w0))"

section \<open>PythonSocket\<close>

definition isConnected :: "world \<Rightarrow> bool" where
  "isConnected w = (case python_socket w of None \<Rightarrow> False | Some p \<Rightarrow> connected p)"

definition pythonSessionId :: "world \<Rightarrow> json" where
  "pythonSessionId w =
     (case python_socket w of
        None \<Rightarrow> JUndefined
      | Some p \<Rightarrow> (case socket_id p of None \<Rightarrow> JUndefined | Some i \<Rightarrow> JStr i))"

text \<open>The generic \<open>emit\<close>: an error line and nothing sent while not connected.\<close>

definition PythonSocket_emit :: "string \<Rightarrow> json \<Rightarrow> world \<Rightarrow> world" where
  "PythonSocket_emit ev data w =
     (if \<not> (case python_socket w of None \<Rightarrow> False | Some p \<Rightarrow> connected p)
      then console_log (console_error
             [LStr (''Cannot emit '' @ [CHR 0x27] @ ev @ [CHR 0x27] @ '' - not connected to Python'')]) w
      else w\<lparr>python_emitted := python_emitted w @ [(ev, data)],
             timeline := timeline w @ [to_python ev data]\<rparr>)"

definition sendNewSession :: "world \<Rightarrow> world" where
  "sendNewSession w = PythonSocket_emit ''new_session'' (JObj []) w"

definition sendTextQuery :: "string \<Rightarrow> string \<Rightarrow> world \<Rightarrow> world" where
  "sendTextQuery sessionId txt w =
     PythonSocket_emit ''text_query'' (JObj [(''text'', JStr txt), (''message'', JStr txt)]) w"

definition sendTextOnlyQuery :: "string \<Rightarrow> string \<Rightarrow> world \<Rightarrow> world" where
  "sendTextOnlyQuery sessionId txt w =
     PythonSocket_emit ''text_only_query'' (JObj [(''text'', JStr txt), (''message'', JStr txt)]) w"

definition sendVoiceInput :: "string \<Rightarrow> string \<Rightarrow> string \<Rightarrow> world \<Rightarrow> world" where
  "sendVoiceInput sessionId audioBase64 fmt w =
     PythonSocket_emit ''voice_input'' (JObj [(''audio'', JStr audioBase64), (''format'', JStr fmt)]) w"

definition sendInterimSpeech :: "string \<Rightarrow> string \<Rightarrow> world \<Rightarrow> world" where
  "sendInterimSpeech sessionId txt w =
     PythonSocket_emit ''interim_speech'' (JObj [(''text'', JStr txt)]) w"

definition sendChangeVoice :: "string \<Rightarrow> world \<Rightarrow> world" where
  "sendChangeVoice voiceId w = PythonSocket_emit ''change_voice'' (JObj [(''voice_id'', JStr voiceId)]) w"

definition sendGetVoices :: "world \<Rightarrow> world" where
  "sendGetVoices w = PythonSocket_emit ''get_voices'' (JObj []) w"

text \<open>
  \<open>dispatch\<close>: \<open>messageHandler\<close> is the registered handler (\<open>null\<close> until
  \<open>setMessageHandler\<close>). A handler returns what it threw, if anything, and the world
  as it left it. The result of \<open>dispatch\<close> has the same shape: its first component is
  what would reach the socket layer.
\<close>

type_synonym PythonMessageHandler = "json \<Rightarrow> world \<Rightarrow> exn option \<times> world"

definition dispatch ::
  "PythonMessageHandler option \<Rightarrow> json \<Rightarrow> world \<Rightarrow> exn option \<times> world" where
  "dispatch messageHandler msg w =
     (case messageHandler of
        None \<Rightarrow> (None, w)
      | Some h \<Rightarrow>
          (case h msg w of
             (None, w') \<Rightarrow> (None, w')
           | (Some err, w') \<Rightarrow>
               (None, console_log (console_error
                  [LStr ''Error in Python message handler:'', LExn err]) w')))"

text \<open>
  The listeners of \<open>connect()\<close>: the wire event and its data become the message handed
  to \<open>dispatch\<close>. \<open>{...data, type: T}\<close> copies the fields of an object (a string
  contributes its characters under their indices, any other value nothing) and sets
  \<open>type\<close>. The \<open>text_response\<close> listener destructures \<open>data\<close> first, which
  throws on \<open>null\<close> and \<open>undefined\<close>, outside \<open>dispatch\<close>. An event without a
  listener is \<open>None\<close>.
\<close>

definition spread :: "json \<Rightarrow> (string \<times> json) list" where
  "spread d =
     (case d of
        JObj kvs \<Rightarrow> kvs
      | JStr s \<Rightarrow> map (\<lambda>(i, c). (toString_radix 10 i, JStr [c])) (enumerate 0 s)
      | _ \<Rightarrow> [])"

definition with_type :: "json \<Rightarrow> string \<Rightarrow> json" where
  "with_type d t = JObj (AList.update ''type'' (JStr t) (spread d))"

definition python_type_of :: "string \<Rightarrow> string option" where
  "python_type_of ev =
     map_of [(''status'', ''STATUS''), (''query_received'', ''QUERY_RECEIVED''),
             (''audio_start'', ''AUDIO_START''), (''audio_chunk'', ''AUDIO_CHUNK''),
             (''audio_end'', ''AUDIO_END''), (''audio_interrupted'', ''AUDIO_INTERRUPTED''),
             (''transcription_start'', ''TRANSCRIPTION_START''),
             (''transcription_complete'', ''TRANSCRIPTION_COMPLETE''),
             (''speculative_ready'', ''SPECULATIVE_READY''),
             (''response_interrupted'', ''RESPONSE_INTERRUPTED''),
             (''voice_changed'', ''VOICE_CHANGED''),
             (''available_voices'', ''AVAILABLE_VOICES''),
             (''error'', ''ERROR''), (''error_response'', ''ERROR'')] ev"

definition python_on ::
  "PythonMessageHandler option \<Rightarrow> string \<Rightarrow> json \<Rightarrow> world \<Rightarrow> exn option \<times> world" where
  "python_on messageHandler ev data w =
     (if ev = ''text_response'' then
        (if data = JUndefined \<or> data = JNull
         then (Some (TypeError ''Cannot destructure data''), w)
         else dispatch messageHandler
                (JObj (AList.update ''type'' (JStr ''TEXT_RESPONSE'')
                   (AList.update ''python_type'' (field data ''type'')
                      (AList.delete ''type'' (spread data))))) w)
      else (case python_type_of ev of
              None \<Rightarrow> (None, w)
            | Some t \<Rightarrow> dispatch messageHandler (with_type data t) w))"

section \<open>VoiceGateway\<close>

text \<open>
  The handlers of the gateway, in the order of the class. Each takes the id of the
  client socket it was called for and returns the exception it ends in, if any, with
  the world it leaves.
\<close>

definition GREETING :: string where
  "GREETING = ''Hello! Welcome to TechGropse, I'' @ [CHR 0x27] @
     ''m Anup, your virtual assistant. What'' @ [CHR 0x27] @ ''s your name?''"

text \<open>The gateway's \<open>sessionCache\<close> is the variant with the in-process map.\<close>

definition sessionCache_get :: "runtime \<Rightarrow> string \<Rightarrow> world \<Rightarrow> exn + json" where
  "sessionCache_get R sessionId w =
     SessionCache_get R sessionId (sessionCache_memory w, redis_store w)"

definition sessionCache_set ::
  "runtime \<Rightarrow> string \<Rightarrow> json \<Rightarrow> world \<Rightarrow> exn option \<times> world" where
  "sessionCache_set R sessionId payload w =
     (case SessionCache_set R sessionId payload (sessionCache_memory w, redis_store w) of
        (x, m, r) \<Rightarrow> (x, w\<lparr>sessionCache_memory := m, redis_store := r\<rparr>))"

definition Date_now :: "world \<Rightarrow> json" where
  "Date_now w = JNum (int (rclock (redis_store w)))"

text \<open>
  \<open>getActiveClient\<close>: \<open>!this.activeFrontendClient\<close> also holds for the empty id;
  the lookup in \<open>server.sockets.sockets\<close> finds connected clients only.
\<close>

definition getActiveClient :: "world \<Rightarrow> string option" where
  "getActiveClient w =
     (case activeFrontendClient w of
        None \<Rightarrow> None
      | Some a \<Rightarrow> if a = [] then None
                  else if a \<in> set (server_sockets w) then Some a else None)"

subsection \<open>Gateway lifecycle\<close>

definition handleConnection :: "runtime \<Rightarrow> string \<Rightarrow> world \<Rightarrow> exn option \<times> world" where
  "handleConnection R c w =
     (let w1 = w\<lparr>activeFrontendClient := Some c\<rparr> in
      case sessionCache_set R c (JObj [(''connectedAt'', Date_now w1)]) w1 of
        (Some e, w2) \<Rightarrow> (Some e, w2)
      | (None, w2) \<Rightarrow>
          (let w3 = client_emit c ''status''
                      (JObj [(''message'', JStr ''Connected to TechGropse Server''),
                             (''type'', JStr ''success''),
                             (''session_id'', JStr c)]) w2 in
           if isConnected w3 then (None, sendNewSession w3)
           else (None, client_emit c ''text_response''
                         (JObj [(''response'', JStr GREETING),
                                (''message'', JStr GREETING),
                                (''type'', JStr ''initial_greeting''),
                                (''show_chatbox'', JBool True),
                                (''current_field'', JStr ''name'')]) w3)))"

definition handleDisconnect :: "string \<Rightarrow> world \<Rightarrow> exn option \<times> world" where
  "handleDisconnect c w =
     (if activeFrontendClient w = Some c
      then (None, w\<lparr>activeFrontendClient := List.find (\<lambda>i. i \<noteq> c) (server_sockets w)\<rparr>)
      else (None, w))"

subsection \<open>Frontend events\<close>

text \<open>
  \<open>emitPollyAudio\<close>: the whole body is one \<open>try\<close>; the \<open>catch\<close> writes the error's
  message to the console.
\<close>

definition emitPollyAudio :: "runtime \<Rightarrow> string \<Rightarrow> json \<Rightarrow> world \<Rightarrow> exn option \<times> world" where
  "emitPollyAudio R c txt w =
     (case synthesizeSpeech R txt (env_or (process_env R ''POLLY_VOICE_ID'') ''Joey'') w of
        (Inr audioBuffer, w1) \<Rightarrow>
          (None, client_emit c ''tts_audio''
                   (JObj [(''audio'', JStr (to_base64 R audioBuffer)),
                          (''format'', JStr ''mp3'')]) w1)
      | (Inl err, w1) \<Rightarrow>
          (None, console_log (console_error
                   [LStr ''[Polly] TTS error:'', LStr (message err)]) w1))"

text \<open>
  \<open>sessionData.lastQuery = text\<close>: the class body is strict code, where setting a
  property of a primitive throws.
\<close>

definition set_property :: "json \<Rightarrow> string \<Rightarrow> json \<Rightarrow> exn + json" where
  "set_property obj k v =
     (case obj of
        JObj kvs \<Rightarrow> Inr (JObj (AList.update k v kvs))
      | _ \<Rightarrow> Inl (TypeError (''Cannot create property '' @ k)))"

text \<open>\<open>typeof cached === 'string' ? cached : cached.text || cached.response\<close>.\<close>

definition cached_responseText :: "json \<Rightarrow> json" where
  "cached_responseText cached =
     (case cached of
        JStr s \<Rightarrow> cached
      | _ \<Rightarrow> js_or (field cached ''text'') (field cached ''response''))"

definition handleTextInput ::
  "runtime \<Rightarrow> string \<Rightarrow> string \<Rightarrow> world \<Rightarrow> exn option \<times> world" where
  "handleTextInput R c txt w =
     (let w1 = w\<lparr>activeFrontendClient := Some c\<rparr> in
      case sessionCache_get R c w1 of
        Inl e \<Rightarrow> (Some e, w1)
      | Inr got \<Rightarrow>
      (case set_property (js_or got (JObj [])) ''lastQuery'' (JStr txt) of
        Inl e \<Rightarrow> (Some e, w1)
      | Inr sessionData \<Rightarrow>
      (case sessionCache_set R c sessionData w1 of
        (Some e, w2) \<Rightarrow> (Some e, w2)
      | (None, w2) \<Rightarrow>
      (case ExactResponseCache_get R ''en'' txt (redis_store w2) of
        Inl e \<Rightarrow> (Some e, w2)
      | Inr cached \<Rightarrow>
          if truthy cached then
            (let responseText = cached_responseText cached;
                 w3 = client_emit c ''text_response''
                        (JObj [(''response'', responseText),
                               (''message'', responseText),
                               (''type'', JStr ''cached'')]) w2;
                 w4 = client_emit c ''stream_complete''
                        (JObj [(''fullResponse'', responseText),
                               (''metadata'', JObj [(''cached'', JBool True)])]) w3
             in emitPollyAudio R c responseText w4)
          else if \<not> isConnected w2 then
            (None, client_emit c ''error''
                     (JObj [(''message'',
                             JStr (''AI service not available. Retrying''
                                   @ [CHR 0xE2, CHR 0x80, CHR 0xA6]))]) w2)
          else (None, sendTextQuery c txt w2)))))"

definition handleTextOnlyInput :: "string \<Rightarrow> string \<Rightarrow> world \<Rightarrow> exn option \<times> world" where
  "handleTextOnlyInput c txt w =
     (let w1 = w\<lparr>activeFrontendClient := Some c\<rparr> in
      if \<not> isConnected w1 then
        (None, client_emit c ''error'' (JObj [(''message'', JStr ''AI service not available'')]) w1)
      else (None, sendTextOnlyQuery c txt w1))"

definition handleVoiceInput ::
  "string \<Rightarrow> string \<Rightarrow> string option \<Rightarrow> world \<Rightarrow> exn option \<times> world" where
  "handleVoiceInput c audio fmt w =
     (let w1 = w\<lparr>activeFrontendClient := Some c\<rparr> in
      if \<not> isConnected w1 then
        (None, client_emit c ''error'' (JObj [(''message'', JStr ''AI service not available'')]) w1)
      else (None, sendVoiceInput c audio (env_or fmt ''webm'') w1))"

definition handleAudioChunk ::
  "runtime \<Rightarrow> string \<Rightarrow> string \<Rightarrow> world \<Rightarrow> exn option \<times> world" where
  "handleAudioChunk R c chunkBase64 w =
     (case AudioDedupCache_isDuplicate R c (from_base64 R chunkBase64) (redis_store w) of
        (Inl e, r) \<Rightarrow> (Some e, w\<lparr>redis_store := r\<rparr>)
      | (Inr isDup, r) \<Rightarrow>
          if isDup then (None, w\<lparr>redis_store := r\<rparr>)
          else (None, PythonSocket_emit ''audio_chunk''
                        (JObj [(''sessionId'', JStr c), (''audio'', JStr chunkBase64)])
                        (w\<lparr>redis_store := r, activeFrontendClient := Some c\<rparr>)))"

definition handleInterimSpeech :: "string \<Rightarrow> string \<Rightarrow> world \<Rightarrow> exn option \<times> world" where
  "handleInterimSpeech c txt w =
     (None, sendInterimSpeech c txt (w\<lparr>activeFrontendClient := Some c\<rparr>))"

definition handleCreateSession :: "runtime \<Rightarrow> string \<Rightarrow> world \<Rightarrow> exn option \<times> world" where
  "handleCreateSession R c w =
     (let w1 = w\<lparr>activeFrontendClient := Some c\<rparr> in
      case sessionCache_set R c (JObj [(''connectedAt'', Date_now w1)]) w1 of
        (Some e, w2) \<Rightarrow> (Some e, w2)
      | (None, w2) \<Rightarrow>
          (None, client_emit c ''session_ready''
                   (JObj [(''sessionId'', JStr c),
                          (''pythonSessionId'', pythonSessionId w2),
                          (''status'', JStr ''ready'')]) w2))"

definition handleChangeVoice :: "string \<Rightarrow> string \<Rightarrow> world \<Rightarrow> exn option \<times> world" where
  "handleChangeVoice c voiceId w =
     (None, sendChangeVoice voiceId (w\<lparr>activeFrontendClient := Some c\<rparr>))"

definition handleGetVoices :: "string \<Rightarrow> world \<Rightarrow> exn option \<times> world" where
  "handleGetVoices c w = (None, sendGetVoices (w\<lparr>activeFrontendClient := Some c\<rparr>))"

text \<open>\<open>repeatLast\<close>: a \<open>Buffer\<close> is an object, so \<open>if (audio)\<close> tests for \<open>null\<close> only.\<close>

definition repeatLast :: "runtime \<Rightarrow> string \<Rightarrow> string \<Rightarrow> world \<Rightarrow> exn option \<times> world" where
  "repeatLast R c responseId w =
     (case TtsRelayCache_get responseId (redis_store w) of
        Inl e \<Rightarrow> (Some e, w)
      | Inr None \<Rightarrow> (None, w)
      | Inr (Some audio) \<Rightarrow>
          (None, client_emit c ''audio'' (JObj [(''audio'', JStr (to_base64 R audio))]) w))"

subsection \<open>Messages from Python\<close>

text \<open>\<open>if (client) client.emit(event, payload)\<close>.\<close>

definition emit_if :: "string option \<Rightarrow> string \<Rightarrow> json \<Rightarrow> world \<Rightarrow> world" where
  "emit_if client ev payload w =
     (case client of None \<Rightarrow> w | Some c \<Rightarrow> client_emit c ev payload w)"

text \<open>
  A value inside a template literal. A number is printed with all its digits, as
  JavaScript does for an integer below \<open>1e21\<close>.
\<close>

definition String_of :: "json \<Rightarrow> string" where
  "String_of v =
     (case v of
        JUndefined \<Rightarrow> ''undefined''
      | JNull \<Rightarrow> ''null''
      | JBool b \<Rightarrow> if b then ''true'' else ''false''
      | JNum n \<Rightarrow> if n < 0 then ''-'' @ toString_radix 10 (nat (- n))
                  else toString_radix 10 (nat n)
      | JStr s \<Rightarrow> s
      | JObj kvs \<Rightarrow> ''[object Object]'')"

text \<open>
  The \<open>TEXT_RESPONSE\<close> case. \<open>responseText.substring\<close> is called for the log line
  before anything is emitted, and throws when \<open>responseText\<close> is not a string.
\<close>

definition handleTextResponse ::
  "runtime \<Rightarrow> string option \<Rightarrow> json \<Rightarrow> world \<Rightarrow> exn option \<times> world" where
  "handleTextResponse R client msg w =
     (let responseText = js_or (js_or (field msg ''response'') (field msg ''message'')) (JStr []) in
      case responseText of
        JStr s \<Rightarrow>
          (case client of
             None \<Rightarrow> (None, w)
           | Some c \<Rightarrow>
               (let w1 = client_emit c ''text_response''
                           (JObj [(''response'', responseText),
                                  (''message'', responseText),
                                  (''type'', js_or (field msg ''python_type'') (JStr ''response'')),
                                  (''show_chatbox'', field msg ''show_chatbox''),
                                  (''current_field'', field msg ''current_field''),
                                  (''contact_form_state'', field msg ''contact_form_state'')]) w;
                    w2 = client_emit c ''stream_complete''
                           (JObj [(''fullResponse'', responseText),
                                  (''metadata'', JObj [(''intent'', field msg ''intent'')])]) w1
                in case sessionCache_get R c w2 of
                     Inl e \<Rightarrow> (Some e, w2)
                   | Inr sessionData \<Rightarrow>
                       if truthy (if sessionData = JNull \<or> sessionData = JUndefined
                                  then JUndefined else field sessionData ''lastQuery'')
                       then (case ExactResponseCache_set R ''en''
                                    (String_of (field sessionData ''lastQuery''))
                                    responseText (redis_store w2) of
                               (x, r) \<Rightarrow> (x, w2\<lparr>redis_store := r\<rparr>))
                       else (None, w2)))
      | _ \<Rightarrow> (Some (TypeError ''responseText.substring is not a function''), w))"

definition handlePythonMessage :: "runtime \<Rightarrow> json \<Rightarrow> world \<Rightarrow> exn option \<times> world" where
  "handlePythonMessage R msg w =
     (let client = getActiveClient w; t = field msg ''type'' in
      if t = JStr ''STATUS'' then
        (case client of
           None \<Rightarrow> (None, w)
         | Some c \<Rightarrow>
             (let w1 = client_emit c ''status'' msg w in
              if truthy (field msg ''session_id'')
              then (None, client_emit c ''session_ready''
                            (JObj [(''sessionId'', JStr c),
                                   (''pythonSessionId'', field msg ''session_id''),
                                   (''status'', JStr ''ready'')]) w1)
              else (None, w1)))
      else if t = JStr ''TEXT_RESPONSE'' then handleTextResponse R client msg w
      else if t = JStr ''QUERY_RECEIVED'' then (None, emit_if client ''query_received'' msg w)
      else if t = JStr ''AUDIO_START'' then (None, emit_if client ''audio_start'' msg w)
      else if t = JStr ''AUDIO_CHUNK'' then
        (None, emit_if client ''audio_chunk''
                 (JObj [(''data'', field msg ''data''),
                        (''chunk_id'', field msg ''chunk_id''),
                        (''format'', js_or (field msg ''format'') (JStr ''mp3'')),
                        (''cached'', field msg ''cached'')]) w)
      else if t = JStr ''AUDIO_END'' then (None, emit_if client ''audio_end'' msg w)
      else if t = JStr ''AUDIO_INTERRUPTED'' then (None, emit_if client ''audio_interrupted'' msg w)
      else if t = JStr ''TRANSCRIPTION_START'' then
        (None, emit_if client ''transcription_start'' msg w)
      else if t = JStr ''TRANSCRIPTION_COMPLETE'' then
        (None, emit_if client ''transcription_complete'' msg w)
      else if t = JStr ''SPECULATIVE_READY'' then (None, emit_if client ''speculative_ready'' msg w)
      else if t = JStr ''RESPONSE_INTERRUPTED'' then
        (None, emit_if client ''response_interrupted'' msg w)
      else if t = JStr ''VOICE_CHANGED'' then (None, emit_if client ''voice_changed'' msg w)
      else if t = JStr ''AVAILABLE_VOICES'' then (None, emit_if client ''available_voices'' msg w)
      else if t = JStr ''ERROR'' then
        (let w1 = console_log (console_error
                    [LStr ''Python error:'',
                     LJson (js_or (field msg ''message'') (field msg ''error''))]) w
         in (None, emit_if client ''error''
                     (JObj [(''message'', js_or (field msg ''message'') (field msg ''error''))]) w1))
      else (None, console_log (console_warn
                    [LStr (''Unhandled Python event type: '' @ String_of t)]) w))"

section \<open>Events and runs\<close>

text \<open>
  What can happen to the gateway. A frontend event names the client it comes from;
  the payload types are the ones the handlers declare. \<open>upstream owner ev data\<close> is an
  event Python emits on the single link; \<open>owner\<close> is the client whose request Python
  is answering. The gateway never sees \<open>owner\<close>: the wire protocol has no field
  for it. The other events are the environment: the link to Python going up and down,
  the store failing and recovering, time passing.
\<close>

datatype frontend =
    connect
  | disconnect
  | text_input string
  | text_only_input string
  | voice_input string "string option"
  | audio_chunk string
  | interim_speech string
  | create_session
  | change_voice string
  | get_voices
  | repeat_last string

datatype event =
    frontend string frontend
  | upstream string string json
  | link_up string
  | link_down
  | store_fault "exn option"
  | tick nat

text \<open>
  Socket.IO adds a client to \<open>server.sockets.sockets\<close> before \<open>handleConnection\<close>
  runs and removes it before \<open>handleDisconnect\<close> runs.
\<close>

definition on_frontend :: "runtime \<Rightarrow> string \<Rightarrow> frontend \<Rightarrow> world \<Rightarrow> exn option \<times> world" where
  "on_frontend R c f w =
     (case f of
        connect \<Rightarrow>
          handleConnection R c
            (w\<lparr>server_sockets :=
                 (if c \<in> set (server_sockets w) then server_sockets w
                  else server_sockets w @ [c])\<rparr>)
      | disconnect \<Rightarrow> handleDisconnect c (w\<lparr>server_sockets := removeAll c (server_sockets w)\<rparr>)
      | text_input txt \<Rightarrow> handleTextInput R c txt w
      | text_only_input txt \<Rightarrow> handleTextOnlyInput c txt w
      | voice_input audio fmt \<Rightarrow> handleVoiceInput c audio fmt w
      | audio_chunk chunkBase64 \<Rightarrow> handleAudioChunk R c chunkBase64 w
      | interim_speech txt \<Rightarrow> handleInterimSpeech c txt w
      | create_session \<Rightarrow> handleCreateSession R c w
      | change_voice voiceId \<Rightarrow> handleChangeVoice c voiceId w
      | get_voices \<Rightarrow> handleGetVoices c w
      | repeat_last responseId \<Rightarrow> repeatLast R c responseId w)"

text \<open>
  One event, its handler run to its end. \<open>afterInit\<close> has registered
  \<open>handlePythonMessage\<close> with the socket. What a frontend handler throws goes to
  Nest's exception layer, which answers the client that sent the event (that answer is
  not part of the model); the world keeps what the handler did before it threw.
\<close>

definition step :: "runtime \<Rightarrow> event \<Rightarrow> world \<Rightarrow> world" where
  "step R e w =
     (case e of
        frontend c f \<Rightarrow> snd (on_frontend R c f w)
      | upstream owner ev data \<Rightarrow> snd (python_on (Some (handlePythonMessage R)) ev data w)
      | link_up i \<Rightarrow> w\<lparr>python_socket := Some \<lparr>connected = True, socket_id = Some i\<rparr>\<rparr>
      | link_down \<Rightarrow> w\<lparr>python_socket := Some \<lparr>connected = False, socket_id = None\<rparr>\<rparr>
      | store_fault x \<Rightarrow> w\<lparr>redis_store := (redis_store w)\<lparr>fault := x\<rparr>\<rparr>
      | tick d \<Rightarrow> w\<lparr>redis_store := elapse d (redis_store w)\<rparr>)"

text \<open>
  What a listener of the Python socket throws outside \<open>dispatch\<close> is caught by
  nobody: Node ends the process. A run stops there; the events after it find no
  gateway. A run is a schedule in which no two handlers overlap.
\<close>

definition exits :: "runtime \<Rightarrow> event \<Rightarrow> world \<Rightarrow> bool" where
  "exits R e w =
     (case e of
        upstream owner ev data \<Rightarrow>
          fst (python_on (Some (handlePythonMessage R)) ev data w) \<noteq> None
      | _ \<Rightarrow> False)"

fun run :: "runtime \<Rightarrow> event list \<Rightarrow> world \<Rightarrow> world" where
  "run R [] w = w"
| "run R (e # es) w = (if exits R e w then w else run R es (step R e w))"

text \<open>What one event makes the gateway emit to frontend clients.\<close>

definition deliveries :: "runtime \<Rightarrow> event \<Rightarrow> world \<Rightarrow> (string \<times> string \<times> json) list" where
  "deliveries R e w = drop (length (client_emitted w)) (client_emitted (step R e w))"

text \<open>
  Along a run, everything an upstream event makes the gateway emit goes to the owner
  of that event.
\<close>

fun routed_to_owner :: "runtime \<Rightarrow> event list \<Rightarrow> world \<Rightarrow> bool" where
  "routed_to_owner R [] w = True"
| "routed_to_owner R (e # es) w =
     ((case e of
         upstream owner ev data \<Rightarrow> list_all (\<lambda>d. fst d = owner) (deliveries R e w)
       | _ \<Rightarrow> True)
      \<and> (if exits R e w then True else routed_to_owner R es (step R e w)))"

text \<open>
  The socket layer, for a sequence of messages: it goes on to the next message as
  long as nothing reaches it from \<open>dispatch\<close>, and stops at the first exception that
  does.
\<close>

fun socket_layer ::
  "PythonMessageHandler option \<Rightarrow> json list \<Rightarrow> world \<Rightarrow> exn option \<times> world" where
  "socket_layer h [] w = (None, w)"
| "socket_layer h (m # ms) w =
     (case dispatch h m w of
        (Some e, w') \<Rightarrow> (Some e, w')
      | (None, w') \<Rightarrow> socket_layer h ms w')"

text \<open>
  The handler applied to every message in turn, an exception costing one console line:
  what a connection that survives every message does.
\<close>

definition handled :: "PythonMessageHandler \<Rightarrow> world \<Rightarrow> json \<Rightarrow> world" where
  "handled h w m =
     (case h m w of
        (None, w') \<Rightarrow> w'
      | (Some err, w') \<Rightarrow>
          console_log (console_error [LStr ''Error in Python message handler:'', LExn err]) w')"

section \<open>A concrete runtime and a first world\<close>

text \<open>
  For evaluating the model at concrete inputs: a printer for JSON text (a field whose
  value is \<open>undefined\<close> is left out, and \<open>undefined\<close> itself reaches the store as the
  empty string), a parser that knows the texts of a given list of values, and stand-ins
  for the hash, base64 and the speech engine.
\<close>

definition quoted :: "string \<Rightarrow> string" where
  "quoted s = [CHR 0x22] @ concat (map (\<lambda>c. if c = CHR 0x22 \<or> c = CHR 0x5C then [CHR 0x5C, c] else [c]) s)
               @ [CHR 0x22]"

fun join :: "string list \<Rightarrow> string" where
  "join [] = []"
| "join [x] = x"
| "join (x # y # ys) = x @ '','' @ join (y # ys)"

fun show_json :: "json \<Rightarrow> string" and show_fields :: "(string \<times> json) list \<Rightarrow> string list" where
  "show_json JUndefined = []"
| "show_json JNull = ''null''"
| "show_json (JBool b) = (if b then ''true'' else ''false'')"
| "show_json (JNum n) = String_of (JNum n)"
| "show_json (JStr s) = quoted s"
| "show_json (JObj kvs) = ''{'' @ join (show_fields kvs) @ ''}''"
| "show_fields [] = []"
| "show_fields ((k, v) # rest) =
     (if v = JUndefined then show_fields rest
      else (quoted k @ '':'' @ show_json v) # show_fields rest)"

definition parse_known :: "json list \<Rightarrow> string \<Rightarrow> exn + json" where
  "parse_known known s =
     (case List.find (\<lambda>v. show_json v = s) known of
        Some v \<Rightarrow> Inr v
      | None \<Rightarrow> Inl (SyntaxError ''Unexpected token''))"

definition test_runtime :: "json list \<Rightarrow> (string \<rightharpoonup> string) \<Rightarrow> runtime" where
  "test_runtime known env =
     \<lparr>json_stringify = show_json,
      json_parse = parse_known known,
      xxh32 = (\<lambda>b seed. seed + of_nat (length b)),
      to_base64 = (\<lambda>b. b),
      from_base64 = (\<lambda>s. s),
      polly_send = (\<lambda>c. Inl (Error ''engine unavailable'')),
      process_env = env\<rparr>"

definition empty_redis :: redis where
  "empty_redis = \<lparr>fault = None, kv = Map.empty, rclock = 0\<rparr>"

definition first_world :: world where
  "first_world =
     \<lparr>activeFrontendClient = None,
      server_sockets = [],
      python_socket = None,
      sessionCache_memory = Map.empty,
      redis_store = empty_redis,
      client_emitted = [],
      python_emitted = [],
      console = [],
      timeline = []\<rparr>"

section \<open>Facts about the store\<close>

lemma redis_get_after_set:
  "fault r = None \<Longrightarrow>
   redis_get k (elapse d (snd (redis_set k v ttl r))) =
     Inr (if d \<le> 1000 * ttl then Some v else None)"
  by (simp add: redis_get_def redis_set_def elapse_def)

lemma redis_get_Inr_up: "redis_get k r = Inr x \<Longrightarrow> fault r = None"
  by (auto simp: redis_get_def split: option.splits)

lemmas cache_defs =
  SessionCache_get_def SessionCache_set_def StoreOnlySessionCache_get_def
  StoreOnlySessionCache_set_def ExactResponseCache_get_def ExactResponseCache_set_def
  SttRawCache_get_def SttRawCache_set_def TtsRelayCache_get_def TtsRelayCache_set_def
  redis_getBuffer_def

lemmas key_defs =
  SessionCache_key_def StoreOnlySessionCache_key_def ExactResponseCache_key_def
  SttRawCache_key_def TtsRelayCache_key_def

lemmas test_defs = test_runtime_def parse_known_def empty_redis_def first_world_def

section \<open>Facts about the dedup key\<close>

text \<open>
  A hexadecimal numeral holds no colon, so the key \<open>audio_chunk:{sessionId}:{hash}\<close>
  determines the session id and the hash: the hash is what follows the last colon.
\<close>

lemma digit_char_not_colon: "digit_char d \<noteq> CHR '':''"
proof -
  have "digit_char d \<in> set ''0123456789abcdef''"
    unfolding digit_char_def by (rule nth_mem) simp
  then show ?thesis
    by auto
qed

lemma toString_radix_no_colon: "CHR '':'' \<notin> set (toString_radix b n)"
proof (induction b n rule: toString_radix.induct)
  case (1 b n)
  show ?case
  proof (cases "b < 2 \<or> n < b")
    case True
    then show ?thesis
      using digit_char_not_colon [of n] by (subst toString_radix.simps) auto
  next
    case False
    then show ?thesis
      using 1 digit_char_not_colon [of "n mod b"] by (subst toString_radix.simps) auto
  qed
qed

lemma split_at_first:
  "c \<notin> set a \<Longrightarrow> c \<notin> set b \<Longrightarrow> a @ c # s = b @ c # s' \<Longrightarrow> a = b \<and> s = s'"
proof (induction a arbitrary: b)
  case Nil
  then show ?case
    by (cases b) auto
next
  case (Cons x a)
  then show ?case
    by (cases b) auto
qed

lemma split_at_last:
  assumes "c \<notin> set h" and "c \<notin> set h'" and "s @ c # h = s' @ c # h'"
  shows "s = s' \<and> h = h'"
proof -
  have "rev (s @ c # h) = rev (s' @ c # h')"
    using assms(3) by simp
  then have "rev h @ c # rev s = rev h' @ c # rev s'"
    by simp
  moreover have "c \<notin> set (rev h)" and "c \<notin> set (rev h')"
    using assms(1,2) by simp_all
  ultimately have "rev h = rev h' \<and> rev s = rev s'"
    by (rule split_at_first [rotated 2])
  then show ?thesis
    by simp
qed

lemma dedup_key_differs:
  assumes "sid' \<noteq> sid \<or> AudioDedupCache_hash R chunk' \<noteq> AudioDedupCache_hash R chunk"
  shows "AudioDedupCache_key R sid' chunk' \<noteq> AudioDedupCache_key R sid chunk"
proof
  assume "AudioDedupCache_key R sid' chunk' = AudioDedupCache_key R sid chunk"
  then have "sid' @ CHR '':'' # AudioDedupCache_hash R chunk'
             = sid @ CHR '':'' # AudioDedupCache_hash R chunk"
    by (simp add: AudioDedupCache_key_def)
  moreover have "CHR '':'' \<notin> set (AudioDedupCache_hash R chunk')"
    and "CHR '':'' \<notin> set (AudioDedupCache_hash R chunk)"
    by (simp_all add: AudioDedupCache_hash_def toString_radix_no_colon)
  ultimately have "sid' = sid \<and> AudioDedupCache_hash R chunk' = AudioDedupCache_hash R chunk"
    by (rule split_at_last [rotated 2])
  with assms show False
    by simp
qed


section \<open>Facts about the handlers\<close>

lemma synthesizeSpeech_fails:
  "fst (synthesizeSpeech R txt voice w0) = Inl err \<Longrightarrow>
   synthesizeSpeech R txt voice w
     = (Inl err, console_log (logger_error (''Polly TTS error: '' @ message err))
                   (w\<lparr>timeline := timeline w @ [to_engine (SynthesizeSpeechCommand txt voice)]\<rparr>))"
  by (auto simp add: synthesizeSpeech_def Let_def
      split: sum.splits option.splits audio_stream.splits)

lemma emitPollyAudio_fails:
  "fst (synthesizeSpeech R txt (env_or (process_env R ''POLLY_VOICE_ID'') ''Joey'') w0) = Inl err \<Longrightarrow>
   emitPollyAudio R c txt w
     = (None, console_log (console_error [LStr ''[Polly] TTS error:'', LStr (message err)])
                (console_log (logger_error (''Polly TTS error: '' @ message err))
                   (w\<lparr>timeline := timeline w @
                        [to_engine (SynthesizeSpeechCommand txt
                           (env_or (process_env R ''POLLY_VOICE_ID'') ''Joey''))]\<rparr>)))"
  by (simp add: emitPollyAudio_def synthesizeSpeech_fails)

lemma session_key_not_exact: "SessionCache_key c \<noteq> ExactResponseCache_key lang q"
  by (simp add: SessionCache_key_def ExactResponseCache_key_def)

lemma exact_get_after_session_set:
  "ExactResponseCache_get R lang q (redis_store (snd (sessionCache_set R c sd w)))
     = ExactResponseCache_get R lang q (redis_store w)"
  using session_key_not_exact [of c lang q]
  by (auto simp: sessionCache_set_def SessionCache_set_def ExactResponseCache_get_def
      redis_set_def redis_get_def Let_def split: option.splits prod.splits)

lemma sessionCache_set_effects:
  "fst (sessionCache_set R c sd w) = None
   \<and> client_emitted (snd (sessionCache_set R c sd w)) = client_emitted w
   \<and> python_emitted (snd (sessionCache_set R c sd w)) = python_emitted w
   \<and> console (snd (sessionCache_set R c sd w)) = console w
   \<and> python_socket (snd (sessionCache_set R c sd w)) = python_socket w
   \<and> activeFrontendClient (snd (sessionCache_set R c sd w)) = activeFrontendClient w
   \<and> server_sockets (snd (sessionCache_set R c sd w)) = server_sockets w
   \<and> timeline (snd (sessionCache_set R c sd w)) = timeline w"
  by (auto simp: sessionCache_set_def SessionCache_set_def Let_def split: option.splits prod.splits)

lemma emit_if_extends:
  "\<exists>new. client_emitted (emit_if client ev p w) = client_emitted w @ new
        \<and> list_all (\<lambda>d. Some (fst d) = client) new"
  by (cases client) (simp_all add: emit_if_def client_emit_def)

lemma handleTextResponse_extends:
  "\<exists>new. client_emitted (snd (handleTextResponse R client msg w)) = client_emitted w @ new
        \<and> list_all (\<lambda>d. Some (fst d) = client) new"
  by (auto simp: handleTextResponse_def Let_def client_emit_def
      split: json.splits option.splits sum.splits prod.splits)

lemma handlePythonMessage_extends:
  "\<exists>new. client_emitted (snd (handlePythonMessage R msg w)) = client_emitted w @ new
        \<and> list_all (\<lambda>d. Some (fst d) = getActiveClient w) new"
  using emit_if_extends [of "getActiveClient w" _ _ w]
        emit_if_extends [of "getActiveClient w" _ _ "console_log _ w"]
        handleTextResponse_extends [of R "getActiveClient w" msg w]
  by (auto simp: handlePythonMessage_def Let_def client_emit_def console_log_def
      split: option.splits)

lemma dispatch_client_emitted:
  "client_emitted (snd (dispatch (Some h) m w)) = client_emitted (snd (h m w))"
  by (simp add: dispatch_def console_log_def split: prod.splits option.splits)

lemma python_on_extends:
  "\<exists>new. client_emitted (snd (python_on (Some (handlePythonMessage R)) ev data w))
            = client_emitted w @ new
        \<and> list_all (\<lambda>d. Some (fst d) = getActiveClient w) new"
proof (cases "ev = ''text_response''")
  case True
  show ?thesis
  proof (cases "data = JUndefined \<or> data = JNull")
    case True
    with \<open>ev = ''text_response''\<close> show ?thesis
      by (simp add: python_on_def)
  next
    case False
    with \<open>ev = ''text_response''\<close> show ?thesis
      using handlePythonMessage_extends [of R _ w]
      by (simp add: python_on_def dispatch_client_emitted)
  qed
next
  case False
  show ?thesis
  proof (cases "python_type_of ev")
    case None
    with False show ?thesis
      by (simp add: python_on_def)
  next
    case (Some t)
    with False show ?thesis
      using handlePythonMessage_extends [of R _ w]
      by (simp add: python_on_def dispatch_client_emitted)
  qed
qed

lemma upstream_deliveries_active:
  "list_all (\<lambda>d. Some (fst d) = getActiveClient w) (deliveries R (upstream owner ev data) w)"
  using python_on_extends [of R ev data w]
  by (auto simp: deliveries_def step_def)

lemma find_removeAll_other:
  "List.find (\<lambda>i. i \<noteq> c) (removeAll c xs) = List.find (\<lambda>i. i \<noteq> c) xs"
  by (induction xs) simp_all

lemma handleTextResponse_keeps_active:
  "activeFrontendClient (snd (handleTextResponse R client msg w)) = activeFrontendClient w"
  by (auto simp: handleTextResponse_def Let_def client_emit_def
      split: json.splits option.splits sum.splits prod.splits)

lemma handlePythonMessage_keeps_active:
  "activeFrontendClient (snd (handlePythonMessage R msg w)) = activeFrontendClient w"
  by (auto simp: handlePythonMessage_def Let_def client_emit_def console_log_def emit_if_def
      handleTextResponse_keeps_active split: option.splits)

lemma dispatch_keeps_active:
  "activeFrontendClient (snd (dispatch (Some h) m w)) = activeFrontendClient (snd (h m w))"
  by (simp add: dispatch_def console_log_def split: prod.splits option.splits)

lemma python_on_keeps_active:
  "activeFrontendClient (snd (python_on (Some (handlePythonMessage R)) ev data w))
     = activeFrontendClient w"
  by (simp add: python_on_def dispatch_keeps_active handlePythonMessage_keeps_active
      split: option.splits)

lemma dispatch_absorbs: "fst (dispatch mh m w) = None"
  by (auto simp: dispatch_def split: option.splits prod.splits)

lemma dispatch_handled: "dispatch (Some h) m w = (None, handled h w m)"
  by (auto simp: dispatch_def handled_def split: option.splits prod.splits)

lemmas gw_defs =
  step_def on_frontend_def handleConnection_def handleDisconnect_def handleTextInput_def
  sessionCache_get_def sessionCache_set_def SessionCache_get_def SessionCache_set_def
  ExactResponseCache_get_def ExactResponseCache_set_def redis_get_def redis_set_def
  SessionCache_key_def StoreOnlySessionCache_key_def ExactResponseCache_key_def
  memory_get_def nullish_def js_or_def
  set_property_def isConnected_def sendNewSession_def sendTextQuery_def PythonSocket_emit_def
  client_emit_def console_log_def Date_now_def python_on_def dispatch_def
  handlePythonMessage_def handleTextResponse_def getActiveClient_def emit_if_def
  python_type_of_def with_type_def spread_def String_of_def cached_responseText_def
  Let_def exits_def deliveries_def quoted_def toString_radix.simps digit_char_def

section \<open>Routing of upstream replies\<close>

text \<open>
  C1, as amended. Whatever state the gateway is in when an upstream event arrives,
  everything that event makes it emit goes to one client: the client named by
  \<open>activeFrontendClient\<close>, provided its id is not empty and is still among the
  server's sockets. When there is no such client nothing is emitted. The owner of the
  exchange plays no part, so a reply reaches its owner exactly when the owner is that
  client at the moment the reply arrives.

  \<open>activeFrontendClient\<close> is set to the sender by \<open>connect\<close>, \<open>text_input\<close>,
  \<open>text_only_input\<close>, \<open>voice_input\<close>, \<open>interim_speech\<close>, \<open>create_session\<close>,
  \<open>change_voice\<close> and \<open>get_voices\<close>, and by an \<open>audio_chunk\<close> for which
  \<open>isDuplicate\<close> returns \<open>false\<close>. When the active client disconnects it becomes
  the first of the remaining sockets, or none. Nothing else changes it: not
  \<open>repeat_last\<close>, not an \<open>audio_chunk\<close> that is suppressed or whose check throws,
  not the disconnect of another client, not an upstream event, not the link, the store
  or the clock.
\<close>

theorem replies_go_to_active_client:
  "list_all (\<lambda>d. Some (fst d) = getActiveClient w) (deliveries R (upstream owner ev data) w)
   \<and> (getActiveClient w = Some a)
       = (activeFrontendClient w = Some a \<and> a \<noteq> [] \<and> a \<in> set (server_sockets w))
   \<and> activeFrontendClient (step R (frontend c connect) w) = Some c
   \<and> activeFrontendClient (step R (frontend c (text_input q)) w) = Some c
   \<and> activeFrontendClient (step R (frontend c (text_only_input q)) w) = Some c
   \<and> activeFrontendClient (step R (frontend c (voice_input audio fmt)) w) = Some c
   \<and> activeFrontendClient (step R (frontend c (interim_speech q)) w) = Some c
   \<and> activeFrontendClient (step R (frontend c create_session) w) = Some c
   \<and> activeFrontendClient (step R (frontend c (change_voice voiceId)) w) = Some c
   \<and> activeFrontendClient (step R (frontend c get_voices) w) = Some c
   \<and> activeFrontendClient (step R (frontend c (audio_chunk b)) w)
       = (if fst (AudioDedupCache_isDuplicate R c (from_base64 R b) (redis_store w)) = Inr False
          then Some c else activeFrontendClient w)
   \<and> activeFrontendClient (step R (frontend c disconnect) w)
       = (if activeFrontendClient w = Some c
          then List.find (\<lambda>i. i \<noteq> c) (server_sockets w) else activeFrontendClient w)
   \<and> activeFrontendClient (step R (frontend c (repeat_last rid)) w) = activeFrontendClient w
   \<and> activeFrontendClient (step R (upstream owner ev data) w) = activeFrontendClient w
   \<and> activeFrontendClient (step R (link_up i) w) = activeFrontendClient w
   \<and> activeFrontendClient (step R link_down w) = activeFrontendClient w
   \<and> activeFrontendClient (step R (store_fault x) w) = activeFrontendClient w
   \<and> activeFrontendClient (step R (tick n) w) = activeFrontendClient w"
proof -
  have a: "list_all (\<lambda>d. Some (fst d) = getActiveClient w) (deliveries R (upstream owner ev data) w)"
    by (rule upstream_deliveries_active)
  have b: "(getActiveClient w = Some a)
       = (activeFrontendClient w = Some a \<and> a \<noteq> [] \<and> a \<in> set (server_sockets w))"
    by (auto simp: getActiveClient_def split: option.splits if_splits)
  have c1: "activeFrontendClient (step R (frontend c connect) w) = Some c"
    by (auto simp: step_def on_frontend_def handleConnection_def Let_def sessionCache_set_def
        SessionCache_set_def client_emit_def sendNewSession_def PythonSocket_emit_def console_log_def
        split: option.splits prod.splits)
  have c2: "activeFrontendClient (step R (frontend c (text_input q)) w) = Some c"
    by (auto simp: step_def on_frontend_def handleTextInput_def Let_def sessionCache_set_def
        SessionCache_set_def client_emit_def sendTextQuery_def PythonSocket_emit_def console_log_def
        emitPollyAudio_def synthesizeSpeech_def
        split: option.splits prod.splits sum.splits audio_stream.splits)
  have c3: "activeFrontendClient (step R (frontend c (text_only_input q)) w) = Some c"
    by (simp add: step_def on_frontend_def handleTextOnlyInput_def Let_def client_emit_def
        sendTextOnlyQuery_def PythonSocket_emit_def console_log_def)
  have c4: "activeFrontendClient (step R (frontend c (voice_input audio fmt)) w) = Some c"
    by (simp add: step_def on_frontend_def handleVoiceInput_def Let_def client_emit_def
        sendVoiceInput_def PythonSocket_emit_def console_log_def)
  have c5: "activeFrontendClient (step R (frontend c (interim_speech q)) w) = Some c"
    by (simp add: step_def on_frontend_def handleInterimSpeech_def
        sendInterimSpeech_def PythonSocket_emit_def console_log_def)
  have c6: "activeFrontendClient (step R (frontend c create_session) w) = Some c"
    by (auto simp: step_def on_frontend_def handleCreateSession_def Let_def sessionCache_set_def
        SessionCache_set_def client_emit_def split: option.splits prod.splits)
  have c7: "activeFrontendClient (step R (frontend c (change_voice voiceId)) w) = Some c"
    by (simp add: step_def on_frontend_def handleChangeVoice_def
        sendChangeVoice_def PythonSocket_emit_def console_log_def)
  have c8: "activeFrontendClient (step R (frontend c get_voices) w) = Some c"
    by (simp add: step_def on_frontend_def handleGetVoices_def
        sendGetVoices_def PythonSocket_emit_def console_log_def)
  have d1: "activeFrontendClient (step R (frontend c (audio_chunk b)) w)
       = (if fst (AudioDedupCache_isDuplicate R c (from_base64 R b) (redis_store w)) = Inr False
          then Some c else activeFrontendClient w)"
    by (auto simp: step_def on_frontend_def handleAudioChunk_def PythonSocket_emit_def
        console_log_def split: prod.splits sum.splits)
  have d2: "activeFrontendClient (step R (frontend c disconnect) w)
       = (if activeFrontendClient w = Some c
          then List.find (\<lambda>i. i \<noteq> c) (server_sockets w) else activeFrontendClient w)"
    by (simp add: step_def on_frontend_def handleDisconnect_def find_removeAll_other)
  have d3: "activeFrontendClient (step R (frontend c (repeat_last rid)) w) = activeFrontendClient w"
    by (simp add: step_def on_frontend_def repeatLast_def client_emit_def
        split: sum.splits option.splits)
  have d4: "activeFrontendClient (step R (upstream owner ev data) w) = activeFrontendClient w"
    by (simp add: step_def python_on_keeps_active)
  have d5: "activeFrontendClient (step R (link_up i) w) = activeFrontendClient w"
    "activeFrontendClient (step R link_down w) = activeFrontendClient w"
    "activeFrontendClient (step R (store_fault x) w) = activeFrontendClient w"
    "activeFrontendClient (step R (tick n) w) = activeFrontendClient w"
    by (simp_all add: step_def)
  show ?thesis
    using a b c1 c2 c3 c4 c5 c6 c7 c8 d1 d2 d3 d4 d5 by blast
qed

text \<open>
  \<open>A\<close> and \<open>B\<close> are connected and \<open>B\<close> is active: an \<open>audio_end\<close> that answers
  \<open>A\<close> goes to \<open>B\<close>. Then \<open>A\<close> sends an \<open>audio_chunk\<close> that is let through:
  \<open>A\<close> is active, and the same \<open>audio_end\<close> goes to \<open>A\<close>. When \<open>B\<close>, the active
  client, disconnects, \<open>A\<close> becomes active.
\<close>

theorem replies_go_to_active_client_witness:
  "getActiveClient (first_world\<lparr>activeFrontendClient := Some ''B'', server_sockets := [''A'', ''B'']\<rparr>)
     = Some ''B''
   \<and> list_all (\<lambda>d. fst d = ''B'')
        (deliveries (test_runtime [] Map.empty) (upstream ''A'' ''audio_end'' (JObj []))
           (first_world\<lparr>activeFrontendClient := Some ''B'', server_sockets := [''A'', ''B'']\<rparr>))
   \<and> activeFrontendClient
        (step (test_runtime [] Map.empty) (frontend ''A'' (audio_chunk ''pcm''))
           (first_world\<lparr>activeFrontendClient := Some ''B'', server_sockets := [''A'', ''B'']\<rparr>))
     = Some ''A''
   \<and> list_all (\<lambda>d. fst d = ''A'')
        (deliveries (test_runtime [] Map.empty) (upstream ''A'' ''audio_end'' (JObj []))
           (step (test_runtime [] Map.empty) (frontend ''A'' (audio_chunk ''pcm''))
              (first_world\<lparr>activeFrontendClient := Some ''B'', server_sockets := [''A'', ''B'']\<rparr>)))
   \<and> activeFrontendClient
        (step (test_runtime [] Map.empty) (frontend ''B'' disconnect)
           (first_world\<lparr>activeFrontendClient := Some ''B'', server_sockets := [''A'', ''B'']\<rparr>))
     = Some ''A''"
proof -
  let ?R = "test_runtime [] Map.empty"
  let ?w = "first_world\<lparr>activeFrontendClient := Some ''B'', server_sockets := [''A'', ''B'']\<rparr>"
  let ?w' = "step ?R (frontend ''A'' (audio_chunk ''pcm'')) ?w"
  let ?e = "upstream ''A'' ''audio_end'' (JObj [])"
  note T = replies_go_to_active_client [where w = ?w and R = ?R and owner = "''A''"
        and ev = "''audio_end''" and data = "JObj []" and a = "''B''" and q = "[]"
        and audio = "[]" and fmt = None and voiceId = "[]" and rid = "[]" and i = "[]"
        and x = None and n = 0]
  note T' = replies_go_to_active_client [where w = ?w' and R = ?R and owner = "''A''"
        and ev = "''audio_end''" and data = "JObj []" and a = "''A''" and q = "[]"
        and audio = "[]" and fmt = None and voiceId = "[]" and rid = "[]" and i = "[]"
        and x = None and n = 0 and c = "''A''" and b = "[]"]
  have a: "getActiveClient ?w = Some ''B''"
    by (simp add: getActiveClient_def)
  have fresh: "fst (AudioDedupCache_isDuplicate ?R ''A'' (from_base64 ?R ''pcm'') (redis_store ?w))
                 = Inr False"
    by (simp add: AudioDedupCache_isDuplicate_def redis_get_def redis_set_def test_defs)
  have chunk: "activeFrontendClient ?w'
       = (if fst (AudioDedupCache_isDuplicate ?R ''A'' (from_base64 ?R ''pcm'') (redis_store ?w))
               = Inr False
          then Some ''A'' else activeFrontendClient ?w)"
    using T [where c = "''A''" and b = "''pcm''"] by blast
  have act: "activeFrontendClient ?w' = Some ''A''"
    using chunk fresh by simp
  have socks: "server_sockets ?w' = [''A'', ''B'']"
    by (simp add: step_def on_frontend_def handleAudioChunk_def PythonSocket_emit_def
        console_log_def split: prod.splits sum.splits)
  have a': "getActiveClient ?w' = Some ''A''"
    using act socks by (simp add: getActiveClient_def)
  have r: "list_all (\<lambda>d. Some (fst d) = getActiveClient ?w) (deliveries ?R ?e ?w)"
    using T [where c = "''B''" and b = "[]"] by blast
  have r': "list_all (\<lambda>d. Some (fst d) = getActiveClient ?w') (deliveries ?R ?e ?w')"
    using T' by blast
  have gone: "activeFrontendClient (step ?R (frontend ''B'' disconnect) ?w)
       = (if activeFrontendClient ?w = Some ''B''
          then List.find (\<lambda>i. i \<noteq> ''B'') (server_sockets ?w) else activeFrontendClient ?w)"
    using T [where c = "''B''" and b = "[]"] by blast
  have g: "activeFrontendClient (step ?R (frontend ''B'' disconnect) ?w) = Some ''A''"
    using gone by simp
  have r1: "list_all (\<lambda>d. fst d = ''B'') (deliveries ?R ?e ?w)"
    using r unfolding a by simp
  have r2: "list_all (\<lambda>d. fst d = ''A'') (deliveries ?R ?e ?w')"
    using r' unfolding a' by simp
  show ?thesis
    using a r1 act r2 g by blast
qed

text \<open>
  The claim as stated fails. \<open>A\<close> and \<open>B\<close> connect and each sends a \<open>text_input\<close>;
  both queries go out on the one link. Python's answer to the first query, which is
  the one \<open>A\<close> sent, is emitted to \<open>B\<close>: both events it causes (\<open>text_response\<close>
  and \<open>stream_complete\<close>) have \<open>B\<close> as their recipient.
\<close>

theorem reply_misrouted_counterexample:
  "python_emitted
     (run (test_runtime [JObj [(''connectedAt'', JNum 0)]] Map.empty)
        [link_up ''py'', frontend ''A'' connect, frontend ''B'' connect,
         frontend ''A'' (text_input ''hi''), frontend ''B'' (text_input ''yo'')]
        first_world)
     = [(''new_session'', JObj []), (''new_session'', JObj []),
        (''text_query'', JObj [(''text'', JStr ''hi''), (''message'', JStr ''hi'')]),
        (''text_query'', JObj [(''text'', JStr ''yo''), (''message'', JStr ''yo'')])]
   \<and> map fst
       (deliveries (test_runtime [JObj [(''connectedAt'', JNum 0)]] Map.empty)
         (upstream ''A'' ''text_response'' (JObj [(''response'', JStr ''answer to hi'')]))
         (run (test_runtime [JObj [(''connectedAt'', JNum 0)]] Map.empty)
            [link_up ''py'', frontend ''A'' connect, frontend ''B'' connect,
             frontend ''A'' (text_input ''hi''), frontend ''B'' (text_input ''yo'')]
            first_world))
     = [''B'', ''B'']
   \<and> \<not> routed_to_owner (test_runtime [JObj [(''connectedAt'', JNum 0)]] Map.empty)
        [link_up ''py'', frontend ''A'' connect, frontend ''B'' connect,
         frontend ''A'' (text_input ''hi''), frontend ''B'' (text_input ''yo''),
         upstream ''A'' ''text_response'' (JObj [(''response'', JStr ''answer to hi'')])]
        first_world"
  by (simp add: gw_defs test_defs)

section \<open>Cache round trip\<close>

text \<open>
  C3, as amended. For the four roles that have \<open>get\<close> and \<open>set\<close> (session in both
  variants, exact response, raw transcript, audio relay), while the store answers:
  \<open>set\<close> writes the value under the role's key (\<open>session:{sessionId}\<close>,
  \<open>exact_response:{lang}:{text}\<close>, \<open>stt_raw:{audioHash}\<close>, \<open>tts_relay:{responseId}\<close>)
  with the role's TTL (1800 s, 60 s, 300 s, 300 s), and a \<open>get\<close> of the same key less
  than the TTL later (\<open>d\<close> is in milliseconds) returns the value that was stored. For
  a transcript or an audio buffer that is every value. For the two roles that store
  JSON text it is every value that survives JSON: \<open>JSON.stringify\<close> gives a text
  that is not empty and that \<open>JSON.parse\<close> reads back as the value. The dedup role has
  no \<open>get\<close> or \<open>set\<close>; its check-and-set is C5. What a method does when the store
  rejects the command is not part of this statement.
\<close>

theorem cache_round_trip:
  assumes up: "fault r = None"
    and codec: "json_parse R (json_stringify R v) = Inr v" "json_stringify R v \<noteq> []"
  shows
    "(d < 1800000 \<longrightarrow>
        SessionCache_get R sid (apsnd (elapse d) (snd (SessionCache_set R sid v (m, r)))) = Inr v
      \<and> StoreOnlySessionCache_get R sid
          (elapse d (snd (StoreOnlySessionCache_set R sid v r))) = Inr v)
   \<and> (d < 60000 \<longrightarrow>
        ExactResponseCache_get R lang q
          (elapse d (snd (ExactResponseCache_set R lang q v r))) = Inr v)
   \<and> (d < 300000 \<longrightarrow>
        SttRawCache_get h (elapse d (snd (SttRawCache_set h transcript r))) = Inr (Some transcript)
      \<and> TtsRelayCache_get rid (elapse d (snd (TtsRelayCache_set rid audio r))) = Inr (Some audio))
   \<and> kv (snd (snd (SessionCache_set R sid v (m, r)))) (''session:'' @ sid)
       = Some (json_stringify R v, rclock r + 1800000)
   \<and> kv (snd (StoreOnlySessionCache_set R sid v r)) (''session:'' @ sid)
       = Some (json_stringify R v, rclock r + 1800000)
   \<and> kv (snd (ExactResponseCache_set R lang q v r)) (''exact_response:'' @ lang @ '':'' @ q)
       = Some (json_stringify R v, rclock r + 60000)
   \<and> kv (snd (SttRawCache_set h transcript r)) (''stt_raw:'' @ h)
       = Some (transcript, rclock r + 300000)
   \<and> kv (snd (TtsRelayCache_set rid audio r)) (''tts_relay:'' @ rid)
       = Some (audio, rclock r + 300000)"
  using up codec
  by (simp add: cache_defs key_defs redis_set_def elapse_def redis_get_def)

text \<open>The round trip at a concrete store, 59.999 s after the \<open>set\<close>.\<close>

theorem cache_round_trip_witness:
  "fault empty_redis = None
   \<and> json_parse (test_runtime [JStr ''hello''] Map.empty)
        (json_stringify (test_runtime [JStr ''hello''] Map.empty) (JStr ''hello''))
       = Inr (JStr ''hello'')
   \<and> json_stringify (test_runtime [JStr ''hello''] Map.empty) (JStr ''hello'') \<noteq> []
   \<and> SessionCache_get (test_runtime [JStr ''hello''] Map.empty) ''s''
        (apsnd (elapse 59999)
           (snd (SessionCache_set (test_runtime [JStr ''hello''] Map.empty) ''s''
                   (JStr ''hello'') (Map.empty, empty_redis))))
       = Inr (JStr ''hello'')
   \<and> StoreOnlySessionCache_get (test_runtime [JStr ''hello''] Map.empty) ''s''
        (elapse 59999
           (snd (StoreOnlySessionCache_set (test_runtime [JStr ''hello''] Map.empty) ''s''
                   (JStr ''hello'') empty_redis)))
       = Inr (JStr ''hello'')
   \<and> ExactResponseCache_get (test_runtime [JStr ''hello''] Map.empty) ''en'' ''hi''
        (elapse 59999
           (snd (ExactResponseCache_set (test_runtime [JStr ''hello''] Map.empty) ''en'' ''hi''
                   (JStr ''hello'') empty_redis)))
       = Inr (JStr ''hello'')
   \<and> SttRawCache_get ''abc'' (elapse 59999 (snd (SttRawCache_set ''abc'' ''good morning'' empty_redis)))
       = Inr (Some ''good morning'')
   \<and> TtsRelayCache_get ''r1'' (elapse 59999 (snd (TtsRelayCache_set ''r1'' ''mp3 bytes'' empty_redis)))
       = Inr (Some ''mp3 bytes'')
   \<and> kv (snd (ExactResponseCache_set (test_runtime [JStr ''hello''] Map.empty) ''en'' ''hi''
                 (JStr ''hello'') empty_redis)) ''exact_response:en:hi''
       = Some (json_stringify (test_runtime [JStr ''hello''] Map.empty) (JStr ''hello''), 60000)"
proof -
  let ?R = "test_runtime [JStr ''hello''] Map.empty"
  have up: "fault empty_redis = None"
    by (simp add: empty_redis_def)
  have c1: "json_parse ?R (json_stringify ?R (JStr ''hello'')) = Inr (JStr ''hello'')"
    by (simp add: test_runtime_def parse_known_def)
  have c2: "json_stringify ?R (JStr ''hello'') \<noteq> []"
    by (simp add: test_runtime_def quoted_def)
  have t0: "rclock empty_redis = 0"
    by (simp add: empty_redis_def)
  show ?thesis
    using up c1 c2 t0
      cache_round_trip [OF up c1 c2, of 59999 "''s''" Map.empty "''en''" "''hi''" "''abc''"
        "''good morning''" "''r1''" "''mp3 bytes''"]
    by simp
qed

text \<open>
  The claim as stated fails at a value that does not survive JSON, and when the
  store does not answer. \<open>set\<close> of \<open>undefined\<close> followed at once by \<open>get\<close> gives
  \<open>null\<close>, in the exact-response cache and in the session cache. With the store
  rejecting commands, the transcript cache's \<open>get\<close> after \<open>set\<close> does not return
  the transcript.
\<close>

theorem undefined_round_trip_counterexample:
  "ExactResponseCache_get (test_runtime [] Map.empty) ''en'' ''hi''
     (snd (ExactResponseCache_set (test_runtime [] Map.empty) ''en'' ''hi'' JUndefined empty_redis))
     = Inr JNull
   \<and> SessionCache_get (test_runtime [] Map.empty) ''s''
       (snd (SessionCache_set (test_runtime [] Map.empty) ''s'' JUndefined (Map.empty, empty_redis)))
     = Inr JNull
   \<and> JNull \<noteq> JUndefined
   \<and> SttRawCache_get ''abc''
       (snd (SttRawCache_set ''abc'' ''good morning''
               (empty_redis\<lparr>fault := Some (Error ''Connection is closed.'')\<rparr>)))
     \<noteq> Inr (Some ''good morning'')"
  by (simp add: cache_defs key_defs redis_get_def redis_set_def test_defs memory_get_def
      nullish_def)

section \<open>Cache expiry\<close>

text \<open>
  C4, as amended. While the store answers: once more than the TTL has passed since
  the \<open>set\<close> (\<open>d\<close> is in milliseconds),
  \<open>get\<close> of the store-only session cache, the exact-response cache, the transcript
  cache and the audio relay cache returns absent, and \<open>repeat_last\<close> for a response
  whose audio was cached more than 300 s ago emits nothing and changes nothing. The
  session cache with the in-process map is different: its \<open>set\<close> also wrote the
  payload to the map, the map has no TTL, and \<open>get\<close> falls back to it when the store
  has no live entry, so it returns the payload of the last \<open>set\<close> (\<open>null\<close> only if
  that payload was \<open>null\<close> or \<open>undefined\<close>).
\<close>

theorem cache_expiry:
  assumes up: "fault r = None"
  shows
    "(1800000 < d \<longrightarrow>
        StoreOnlySessionCache_get R sid
          (elapse d (snd (StoreOnlySessionCache_set R sid v r))) = Inr JNull
      \<and> SessionCache_get R sid (apsnd (elapse d) (snd (SessionCache_set R sid v (m, r))))
          = Inr (nullish v JNull))
   \<and> (60000 < d \<longrightarrow>
        ExactResponseCache_get R lang q
          (elapse d (snd (ExactResponseCache_set R lang q v r))) = Inr JNull)
   \<and> (300000 < d \<longrightarrow>
        SttRawCache_get h (elapse d (snd (SttRawCache_set h transcript r))) = Inr None
      \<and> TtsRelayCache_get rid (elapse d (snd (TtsRelayCache_set rid audio r))) = Inr None
      \<and> (redis_store w = elapse d (snd (TtsRelayCache_set rid audio r)) \<longrightarrow>
           repeatLast R c rid w = (None, w)))"
  using up
  by (simp add: cache_defs redis_get_after_set repeatLast_def memory_get_def redis_set_def
      redis_get_def elapse_def)

text \<open>Expiry at a concrete store, 1800.001 s after the \<open>set\<close>.\<close>

theorem cache_expiry_witness:
  "fault empty_redis = None
   \<and> StoreOnlySessionCache_get (test_runtime [] Map.empty) ''s''
        (elapse 1800001
           (snd (StoreOnlySessionCache_set (test_runtime [] Map.empty) ''s''
                   (JStr ''hello'') empty_redis)))
       = Inr JNull
   \<and> SessionCache_get (test_runtime [] Map.empty) ''s''
        (apsnd (elapse 1800001)
           (snd (SessionCache_set (test_runtime [] Map.empty) ''s''
                   (JStr ''hello'') (Map.empty, empty_redis))))
       = Inr (JStr ''hello'')
   \<and> ExactResponseCache_get (test_runtime [] Map.empty) ''en'' ''hi''
        (elapse 1800001
           (snd (ExactResponseCache_set (test_runtime [] Map.empty) ''en'' ''hi''
                   (JStr ''hello'') empty_redis)))
       = Inr JNull
   \<and> SttRawCache_get ''abc'' (elapse 1800001 (snd (SttRawCache_set ''abc'' ''good morning'' empty_redis)))
       = Inr None
   \<and> TtsRelayCache_get ''r1'' (elapse 1800001 (snd (TtsRelayCache_set ''r1'' ''mp3 bytes'' empty_redis)))
       = Inr None
   \<and> repeatLast (test_runtime [] Map.empty) ''A'' ''r1''
        (first_world\<lparr>redis_store :=
           elapse 1800001 (snd (TtsRelayCache_set ''r1'' ''mp3 bytes'' empty_redis))\<rparr>)
       = (None, first_world\<lparr>redis_store :=
           elapse 1800001 (snd (TtsRelayCache_set ''r1'' ''mp3 bytes'' empty_redis))\<rparr>)"
proof -
  have up: "fault empty_redis = None"
    by (simp add: empty_redis_def)
  show ?thesis
    using up
      cache_expiry [OF up, of 1800001 "test_runtime [] Map.empty" "''s''" "JStr ''hello''"
        Map.empty "''en''" "''hi''" "''abc''" "''good morning''" "''r1''" "''mp3 bytes''"
        "first_world\<lparr>redis_store :=
           elapse 1800001 (snd (TtsRelayCache_set ''r1'' ''mp3 bytes'' empty_redis))\<rparr>" "''A''"]
    by (simp add: nullish_def)
qed

text \<open>
  The claim as stated fails for the session role: more than 1800 s after the \<open>set\<close>,
  with the store answering, \<open>get\<close> still returns the payload.
\<close>

theorem session_get_after_ttl_counterexample:
  "SessionCache_get (test_runtime [] Map.empty) ''s''
     (apsnd (elapse 1800001)
        (snd (SessionCache_set (test_runtime [] Map.empty) ''s''
                (JObj [(''connectedAt'', JNum 0)]) (Map.empty, empty_redis))))
     = Inr (JObj [(''connectedAt'', JNum 0)])
   \<and> SessionCache_get (test_runtime [] Map.empty) ''s''
     (apsnd (elapse 1800001)
        (snd (SessionCache_set (test_runtime [] Map.empty) ''s''
                (JObj [(''connectedAt'', JNum 0)]) (Map.empty, empty_redis))))
     \<noteq> Inr JNull"
  by (simp add: cache_defs redis_get_def redis_set_def elapse_def empty_redis_def
      memory_get_def nullish_def)

section \<open>Duplicate suppression\<close>

text \<open>
  C5. The marker of a scope and a chunk is the entry under
  \<open>audio_chunk:{sessionId}:{hash}\<close>, the hash being \<open>xxhash.h32\<close> of the bytes with
  seed \<open>0xabcd\<close> in hexadecimal. Take a first call of \<open>isDuplicate\<close> for a scope and a
  chunk: the store answers and holds no live marker of that scope and hash. It returns
  \<open>false\<close> and writes the marker with a TTL of 2 s. A second call with the same scope
  and the same bytes, made after the first has returned and less than 2000 ms after
  the marker was written, returns \<open>true\<close> and leaves the store as it was (the marker
  is not renewed). A call more than 2000 ms after the marker was written returns
  \<open>false\<close> again. The marker concerns nobody else: a call for another scope, or for
  bytes with another hash, returns what it would have returned without it.
\<close>

theorem dedup_window:
  assumes first: "redis_get (AudioDedupCache_key R sid chunk) r = Inr None"
  shows
    "AudioDedupCache_key R sid chunk
       = ''audio_chunk:'' @ sid @ '':'' @ toString_radix 16 (unat (xxh32 R chunk 0xabcd))
   \<and> fst (AudioDedupCache_isDuplicate R sid chunk r) = Inr False
   \<and> kv (snd (AudioDedupCache_isDuplicate R sid chunk r))
        (''audio_chunk:'' @ sid @ '':'' @ toString_radix 16 (unat (xxh32 R chunk 0xabcd)))
       = Some (''1'', rclock r + 2000)
   \<and> (d < 2000 \<longrightarrow>
        AudioDedupCache_isDuplicate R sid chunk
          (elapse d (snd (AudioDedupCache_isDuplicate R sid chunk r)))
        = (Inr True, elapse d (snd (AudioDedupCache_isDuplicate R sid chunk r))))
   \<and> (2000 < d \<longrightarrow>
        fst (AudioDedupCache_isDuplicate R sid chunk
               (elapse d (snd (AudioDedupCache_isDuplicate R sid chunk r)))) = Inr False)
   \<and> (sid' \<noteq> sid \<or> AudioDedupCache_hash R chunk' \<noteq> AudioDedupCache_hash R chunk \<longrightarrow>
        fst (AudioDedupCache_isDuplicate R sid' chunk'
               (elapse d (snd (AudioDedupCache_isDuplicate R sid chunk r))))
        = fst (AudioDedupCache_isDuplicate R sid' chunk' (elapse d r)))"
proof -
  have up: "fault r = None"
    using first by (rule redis_get_Inr_up)
  have k: "AudioDedupCache_key R sid chunk
       = ''audio_chunk:'' @ sid @ '':'' @ toString_radix 16 (unat (xxh32 R chunk 0xabcd))"
    by (simp add: AudioDedupCache_key_def AudioDedupCache_hash_def)
  have own: "fst (AudioDedupCache_isDuplicate R sid chunk r) = Inr False
   \<and> kv (snd (AudioDedupCache_isDuplicate R sid chunk r)) (AudioDedupCache_key R sid chunk)
       = Some (''1'', rclock r + 2000)
   \<and> (d < 2000 \<longrightarrow>
        AudioDedupCache_isDuplicate R sid chunk
          (elapse d (snd (AudioDedupCache_isDuplicate R sid chunk r)))
        = (Inr True, elapse d (snd (AudioDedupCache_isDuplicate R sid chunk r))))
   \<and> (2000 < d \<longrightarrow>
        fst (AudioDedupCache_isDuplicate R sid chunk
               (elapse d (snd (AudioDedupCache_isDuplicate R sid chunk r)))) = Inr False)"
    using first up
    by (simp add: AudioDedupCache_isDuplicate_def redis_set_def redis_get_def elapse_def)
  have other: "fst (AudioDedupCache_isDuplicate R sid' chunk'
               (elapse d (snd (AudioDedupCache_isDuplicate R sid chunk r))))
        = fst (AudioDedupCache_isDuplicate R sid' chunk' (elapse d r))"
    if "sid' \<noteq> sid \<or> AudioDedupCache_hash R chunk' \<noteq> AudioDedupCache_hash R chunk"
  proof -
    have ne: "AudioDedupCache_key R sid' chunk' \<noteq> AudioDedupCache_key R sid chunk"
      using that by (rule dedup_key_differs)
    show ?thesis
      using first up ne
      by (simp add: AudioDedupCache_isDuplicate_def redis_set_def redis_get_def elapse_def
          split: option.splits prod.splits)
  qed
  show ?thesis
    using k own other by simp
qed

text \<open>
  The window at a concrete store: 1999 ms and 2001 ms after the first call of scope
  \<open>A\<close>; and the first call of scope \<open>B\<close> for the same bytes, 1 ms after it.
\<close>

theorem dedup_window_witness:
  "redis_get (AudioDedupCache_key (test_runtime [] Map.empty) ''A'' ''pcm'') empty_redis = Inr None
   \<and> AudioDedupCache_key (test_runtime [] Map.empty) ''A'' ''pcm'' = ''audio_chunk:A:abd0''
   \<and> fst (AudioDedupCache_isDuplicate (test_runtime [] Map.empty) ''A'' ''pcm'' empty_redis)
       = Inr False
   \<and> fst (AudioDedupCache_isDuplicate (test_runtime [] Map.empty) ''A'' ''pcm''
            (elapse 1999
               (snd (AudioDedupCache_isDuplicate (test_runtime [] Map.empty) ''A'' ''pcm''
                       empty_redis))))
       = Inr True
   \<and> fst (AudioDedupCache_isDuplicate (test_runtime [] Map.empty) ''A'' ''pcm''
            (elapse 2001
               (snd (AudioDedupCache_isDuplicate (test_runtime [] Map.empty) ''A'' ''pcm''
                       empty_redis))))
       = Inr False
   \<and> fst (AudioDedupCache_isDuplicate (test_runtime [] Map.empty) ''B'' ''pcm''
            (elapse 1
               (snd (AudioDedupCache_isDuplicate (test_runtime [] Map.empty) ''A'' ''pcm''
                       empty_redis))))
       = Inr False"
proof -
  let ?R = "test_runtime [] Map.empty"
  have first: "redis_get (AudioDedupCache_key ?R ''A'' ''pcm'') empty_redis = Inr None"
    by (simp add: redis_get_def empty_redis_def)
  have hex: "toString_radix 16 (unat (xxh32 ?R ''pcm'' 0xabcd)) = ''abd0''"
    by (simp add: test_runtime_def toString_radix.simps digit_char_def)
  have B: "fst (AudioDedupCache_isDuplicate ?R ''B'' ''pcm'' (elapse 1 empty_redis)) = Inr False"
    by (simp add: AudioDedupCache_isDuplicate_def redis_get_def redis_set_def elapse_def
        empty_redis_def)
  have other: "''B'' \<noteq> ''A'' \<or> AudioDedupCache_hash ?R ''pcm'' \<noteq> AudioDedupCache_hash ?R ''pcm''"
    by simp
  show ?thesis
    using first hex B other
      dedup_window [OF first, of 1999 "''B''" "''pcm''"]
      dedup_window [OF first, of 2001 "''B''" "''pcm''"]
      dedup_window [OF first, of 1 "''B''" "''pcm''"]
    by simp
qed

section \<open>Store failures\<close>

text \<open>
  With the store rejecting every command with \<open>e\<close>, \<open>get\<close> and \<open>set\<close> of the
  exact-response, transcript, audio relay and store-only session caches, and
  \<open>isDuplicate\<close>, end with \<open>e\<close> thrown: none of them has a \<open>try\<close>.
\<close>

lemma store_failure_propagates:
  "ExactResponseCache_get R lang q (r\<lparr>fault := Some e\<rparr>) = Inl e
   \<and> fst (ExactResponseCache_set R lang q v (r\<lparr>fault := Some e\<rparr>)) = Some e
   \<and> SttRawCache_get h (r\<lparr>fault := Some e\<rparr>) = Inl e
   \<and> fst (SttRawCache_set h t (r\<lparr>fault := Some e\<rparr>)) = Some e
   \<and> TtsRelayCache_get rid (r\<lparr>fault := Some e\<rparr>) = Inl e
   \<and> fst (TtsRelayCache_set rid a (r\<lparr>fault := Some e\<rparr>)) = Some e
   \<and> StoreOnlySessionCache_get R sid (r\<lparr>fault := Some e\<rparr>) = Inl e
   \<and> fst (StoreOnlySessionCache_set R sid v (r\<lparr>fault := Some e\<rparr>)) = Some e
   \<and> fst (AudioDedupCache_isDuplicate R sid chunk (r\<lparr>fault := Some e\<rparr>)) = Inl e"
  by (simp add: cache_defs redis_get_def redis_set_def AudioDedupCache_isDuplicate_def)

text \<open>
  The session cache with the in-process map is the one class that catches: neither
  method throws, whatever the store does.
\<close>

lemma SessionCache_never_throws:
  "(\<exists>v. SessionCache_get R sid c = Inr v) \<and> fst (SessionCache_set R sid p c) = None"
  by (auto simp: SessionCache_get_def SessionCache_set_def Let_def
      split: sum.splits option.splits prod.splits)

text \<open>
  C2, at the failing input. The store is unreachable and rejects every command. The
  exact-response cache's \<open>get\<close> throws the store's error instead of returning
  \<open>null\<close>, and its \<open>set\<close> throws instead of completing. For the gateway this means
  that a \<open>text_input\<close> from a connected client, with Python connected, ends in that
  exception: the query is not forwarded to Python and the client is sent nothing.
\<close>

theorem store_down_text_input:
  "ExactResponseCache_get (test_runtime [] Map.empty) ''en'' ''hi''
     (empty_redis\<lparr>fault := Some (Error ''Connection is closed.'')\<rparr>)
     = Inl (Error ''Connection is closed.'')
   \<and> fst (ExactResponseCache_set (test_runtime [] Map.empty) ''en'' ''hi'' (JStr ''hello'')
            (empty_redis\<lparr>fault := Some (Error ''Connection is closed.'')\<rparr>))
     = Some (Error ''Connection is closed.'')
   \<and> fst (handleTextInput (test_runtime [] Map.empty) ''A'' ''hi''
            (first_world\<lparr>server_sockets := [''A''],
               python_socket := Some \<lparr>connected = True, socket_id = Some ''py''\<rparr>,
               redis_store := empty_redis\<lparr>fault := Some (Error ''Connection is closed.'')\<rparr>\<rparr>))
     = Some (Error ''Connection is closed.'')
   \<and> python_emitted (snd (handleTextInput (test_runtime [] Map.empty) ''A'' ''hi''
            (first_world\<lparr>server_sockets := [''A''],
               python_socket := Some \<lparr>connected = True, socket_id = Some ''py''\<rparr>,
               redis_store := empty_redis\<lparr>fault := Some (Error ''Connection is closed.'')\<rparr>\<rparr>)))
     = []
   \<and> client_emitted (snd (handleTextInput (test_runtime [] Map.empty) ''A'' ''hi''
            (first_world\<lparr>server_sockets := [''A''],
               python_socket := Some \<lparr>connected = True, socket_id = Some ''py''\<rparr>,
               redis_store := empty_redis\<lparr>fault := Some (Error ''Connection is closed.'')\<rparr>\<rparr>)))
     = []"
  by (simp add: gw_defs test_defs)

section \<open>Connecting\<close>




section \<open>Synthesis failures\<close>

text \<open>
  C7. Let \<open>synthesizeSpeech\<close> throw \<open>err\<close> for the text \<open>txt\<close>. Then
  \<open>emitPollyAudio\<close> returns normally and emits nothing to the client; what it does is
  the call of the engine and then two lines, the service's own log line and the
  gateway's console line with the error's message. And when \<open>handleTextInput\<close> answers
  from the exact-response cache (the session lookup gave an object or nothing, the
  cached value is truthy and \<open>txt\<close> is its response text), the handler returns
  normally, and what it does is, in this order: the \<open>text_response\<close> to the client,
  the \<open>stream_complete\<close> to the client, the call of the engine, the two lines. So both
  text events are emitted before the synthesis is attempted; no \<open>tts_audio\<close> is
  emitted, and nothing is sent to Python.
\<close>

theorem synthesis_failure_absorbed:
  assumes fail:
    "fst (synthesizeSpeech R txt (env_or (process_env R ''POLLY_VOICE_ID'') ''Joey'') w) = Inl err"
  shows
    "fst (emitPollyAudio R c txt w) = None
   \<and> client_emitted (snd (emitPollyAudio R c txt w)) = client_emitted w
   \<and> timeline (snd (emitPollyAudio R c txt w))
       = timeline w @
         [to_engine (SynthesizeSpeechCommand txt
                       (env_or (process_env R ''POLLY_VOICE_ID'') ''Joey'')),
          to_console (logger_error (''Polly TTS error: '' @ message err)),
          to_console (console_error [LStr ''[Polly] TTS error:'', LStr (message err)])]
   \<and> (sessionCache_get R c w = Inr got
      \<and> set_property (js_or got (JObj [])) ''lastQuery'' (JStr q) = Inr sd
      \<and> ExactResponseCache_get R ''en'' q (redis_store w) = Inr cached
      \<and> truthy cached \<and> txt = cached_responseText cached
     \<longrightarrow> fst (handleTextInput R c q w) = None
       \<and> timeline (snd (handleTextInput R c q w))
           = timeline w @
             [to_client c ''text_response''
                (JObj [(''response'', txt), (''message'', txt), (''type'', JStr ''cached'')]),
              to_client c ''stream_complete''
                (JObj [(''fullResponse'', txt), (''metadata'', JObj [(''cached'', JBool True)])]),
              to_engine (SynthesizeSpeechCommand txt
                           (env_or (process_env R ''POLLY_VOICE_ID'') ''Joey'')),
              to_console (logger_error (''Polly TTS error: '' @ message err)),
              to_console (console_error [LStr ''[Polly] TTS error:'', LStr (message err)])]
       \<and> client_emitted (snd (handleTextInput R c q w))
           = client_emitted w @
             [(c, ''text_response'', JObj [(''response'', txt), (''message'', txt),
                                           (''type'', JStr ''cached'')]),
              (c, ''stream_complete'', JObj [(''fullResponse'', txt),
                                             (''metadata'', JObj [(''cached'', JBool True)])])]
       \<and> console (snd (handleTextInput R c q w))
           = console w @
             [logger_error (''Polly TTS error: '' @ message err),
              console_error [LStr ''[Polly] TTS error:'', LStr (message err)]]
       \<and> python_emitted (snd (handleTextInput R c q w)) = python_emitted w)"
proof (intro conjI impI)
  show "fst (emitPollyAudio R c txt w) = None"
    by (simp add: emitPollyAudio_fails [OF fail])
  show "client_emitted (snd (emitPollyAudio R c txt w)) = client_emitted w"
    by (simp add: emitPollyAudio_fails [OF fail] console_log_def)
  show "timeline (snd (emitPollyAudio R c txt w))
       = timeline w @
         [to_engine (SynthesizeSpeechCommand txt
                       (env_or (process_env R ''POLLY_VOICE_ID'') ''Joey'')),
          to_console (logger_error (''Polly TTS error: '' @ message err)),
          to_console (console_error [LStr ''[Polly] TTS error:'', LStr (message err)])]"
    by (simp add: emitPollyAudio_fails [OF fail] console_log_def)
next
  assume h: "sessionCache_get R c w = Inr got
      \<and> set_property (js_or got (JObj [])) ''lastQuery'' (JStr q) = Inr sd
      \<and> ExactResponseCache_get R ''en'' q (redis_store w) = Inr cached
      \<and> truthy cached \<and> txt = cached_responseText cached"
  let ?w1 = "w\<lparr>activeFrontendClient := Some c\<rparr>"
  obtain w2 where s: "sessionCache_set R c sd ?w1 = (None, w2)"
    using sessionCache_set_effects [of R c sd ?w1]
    by (cases "sessionCache_set R c sd ?w1") simp
  have g: "sessionCache_get R c ?w1 = Inr got"
    using h by (simp add: sessionCache_get_def)
  have e: "ExactResponseCache_get R ''en'' q (redis_store w2) = Inr cached"
    using h s exact_get_after_session_set [of R "''en''" q c sd ?w1] by simp
  have run: "handleTextInput R c q w =
      emitPollyAudio R c txt
        (client_emit c ''stream_complete''
           (JObj [(''fullResponse'', txt), (''metadata'', JObj [(''cached'', JBool True)])])
           (client_emit c ''text_response''
              (JObj [(''response'', txt), (''message'', txt), (''type'', JStr ''cached'')]) w2))"
    using h g s e by (simp add: handleTextInput_def Let_def)
  have fx: "client_emitted w2 = client_emitted w" "console w2 = console w"
      "python_emitted w2 = python_emitted w" "timeline w2 = timeline w"
    using sessionCache_set_effects [of R c sd ?w1] s by simp_all
  show "fst (handleTextInput R c q w) = None"
    by (simp add: run emitPollyAudio_fails [OF fail])
  show "timeline (snd (handleTextInput R c q w))
           = timeline w @
             [to_client c ''text_response''
                (JObj [(''response'', txt), (''message'', txt), (''type'', JStr ''cached'')]),
              to_client c ''stream_complete''
                (JObj [(''fullResponse'', txt), (''metadata'', JObj [(''cached'', JBool True)])]),
              to_engine (SynthesizeSpeechCommand txt
                           (env_or (process_env R ''POLLY_VOICE_ID'') ''Joey'')),
              to_console (logger_error (''Polly TTS error: '' @ message err)),
              to_console (console_error [LStr ''[Polly] TTS error:'', LStr (message err)])]"
    by (simp add: run emitPollyAudio_fails [OF fail] fx client_emit_def console_log_def)
  show "client_emitted (snd (handleTextInput R c q w))
           = client_emitted w @
             [(c, ''text_response'', JObj [(''response'', txt), (''message'', txt),
                                           (''type'', JStr ''cached'')]),
              (c, ''stream_complete'', JObj [(''fullResponse'', txt),
                                             (''metadata'', JObj [(''cached'', JBool True)])])]"
    by (simp add: run emitPollyAudio_fails [OF fail] fx client_emit_def console_log_def)
  show "console (snd (handleTextInput R c q w))
           = console w @
             [logger_error (''Polly TTS error: '' @ message err),
              console_error [LStr ''[Polly] TTS error:'', LStr (message err)]]"
    by (simp add: run emitPollyAudio_fails [OF fail] fx client_emit_def console_log_def)
  show "python_emitted (snd (handleTextInput R c q w)) = python_emitted w"
    by (simp add: run emitPollyAudio_fails [OF fail] fx client_emit_def console_log_def)
qed

text \<open>
  A cache hit for \<open>hi\<close> with the engine unavailable: the two text events, then the
  call of the engine, then the two log lines; no exception.
\<close>

theorem synthesis_failure_absorbed_witness:
  "fst (synthesizeSpeech (test_runtime [JStr ''hello''] Map.empty) (JStr ''hello'')
          (env_or (process_env (test_runtime [JStr ''hello''] Map.empty) ''POLLY_VOICE_ID'') ''Joey'')
          (first_world\<lparr>redis_store :=
             snd (ExactResponseCache_set (test_runtime [JStr ''hello''] Map.empty) ''en'' ''hi''
                    (JStr ''hello'') empty_redis)\<rparr>))
     = Inl (Error ''engine unavailable'')
   \<and> ExactResponseCache_get (test_runtime [JStr ''hello''] Map.empty) ''en'' ''hi''
        (snd (ExactResponseCache_set (test_runtime [JStr ''hello''] Map.empty) ''en'' ''hi''
                (JStr ''hello'') empty_redis))
     = Inr (JStr ''hello'')
   \<and> fst (handleTextInput (test_runtime [JStr ''hello''] Map.empty) ''A'' ''hi''
          (first_world\<lparr>redis_store :=
             snd (ExactResponseCache_set (test_runtime [JStr ''hello''] Map.empty) ''en'' ''hi''
                    (JStr ''hello'') empty_redis)\<rparr>)) = None
   \<and> timeline (snd (handleTextInput (test_runtime [JStr ''hello''] Map.empty) ''A'' ''hi''
          (first_world\<lparr>redis_store :=
             snd (ExactResponseCache_set (test_runtime [JStr ''hello''] Map.empty) ''en'' ''hi''
                    (JStr ''hello'') empty_redis)\<rparr>)))
     = [to_client ''A'' ''text_response''
          (JObj [(''response'', JStr ''hello''), (''message'', JStr ''hello''),
                 (''type'', JStr ''cached'')]),
        to_client ''A'' ''stream_complete''
          (JObj [(''fullResponse'', JStr ''hello''),
                 (''metadata'', JObj [(''cached'', JBool True)])]),
        to_engine (SynthesizeSpeechCommand (JStr ''hello'') ''Joey''),
        to_console (logger_error ''Polly TTS error: engine unavailable''),
        to_console (console_error [LStr ''[Polly] TTS error:'', LStr ''engine unavailable''])]
   \<and> client_emitted (snd (handleTextInput (test_runtime [JStr ''hello''] Map.empty) ''A'' ''hi''
          (first_world\<lparr>redis_store :=
             snd (ExactResponseCache_set (test_runtime [JStr ''hello''] Map.empty) ''en'' ''hi''
                    (JStr ''hello'') empty_redis)\<rparr>)))
     = [(''A'', ''text_response'', JObj [(''response'', JStr ''hello''), (''message'', JStr ''hello''),
                                         (''type'', JStr ''cached'')]),
        (''A'', ''stream_complete'', JObj [(''fullResponse'', JStr ''hello''),
                                           (''metadata'', JObj [(''cached'', JBool True)])])]
   \<and> console (snd (handleTextInput (test_runtime [JStr ''hello''] Map.empty) ''A'' ''hi''
          (first_world\<lparr>redis_store :=
             snd (ExactResponseCache_set (test_runtime [JStr ''hello''] Map.empty) ''en'' ''hi''
                    (JStr ''hello'') empty_redis)\<rparr>)))
     = [logger_error ''Polly TTS error: engine unavailable'',
        console_error [LStr ''[Polly] TTS error:'', LStr ''engine unavailable'']]"
proof -
  let ?R = "test_runtime [JStr ''hello''] Map.empty"
  let ?r = "snd (ExactResponseCache_set ?R ''en'' ''hi'' (JStr ''hello'') empty_redis)"
  let ?w = "first_world\<lparr>redis_store := ?r\<rparr>"
  have fail: "fst (synthesizeSpeech ?R (JStr ''hello'')
                (env_or (process_env ?R ''POLLY_VOICE_ID'') ''Joey'') ?w)
              = Inl (Error ''engine unavailable'')"
    by (simp add: synthesizeSpeech_def test_runtime_def)
  have voice: "env_or (process_env ?R ''POLLY_VOICE_ID'') ''Joey'' = ''Joey''"
    by (simp add: test_runtime_def env_or_def)
  have got: "sessionCache_get ?R ''A'' ?w = Inr JNull"
    by (simp add: sessionCache_get_def SessionCache_get_def redis_get_def
        ExactResponseCache_set_def redis_set_def empty_redis_def first_world_def
        SessionCache_key_def ExactResponseCache_key_def memory_get_def nullish_def)
  have sd: "set_property (js_or JNull (JObj [])) ''lastQuery'' (JStr ''hi'')
              = Inr (JObj [(''lastQuery'', JStr ''hi'')])"
    by (simp add: set_property_def js_or_def)
  have hit: "ExactResponseCache_get ?R ''en'' ''hi'' ?r = Inr (JStr ''hello'')"
    by (simp add: ExactResponseCache_get_def ExactResponseCache_set_def redis_get_def
        redis_set_def empty_redis_def test_runtime_def parse_known_def quoted_def)
  have tx: "JStr ''hello'' = cached_responseText (JStr ''hello'')"
    by (simp add: cached_responseText_def)
  have w: "client_emitted ?w = []" "console ?w = []" "redis_store ?w = ?r" "timeline ?w = []"
    by (simp_all add: first_world_def)
  have T: "fst (handleTextInput ?R ''A'' ''hi'' ?w) = None
     \<and> timeline (snd (handleTextInput ?R ''A'' ''hi'' ?w))
     = [to_client ''A'' ''text_response''
          (JObj [(''response'', JStr ''hello''), (''message'', JStr ''hello''),
                 (''type'', JStr ''cached'')]),
        to_client ''A'' ''stream_complete''
          (JObj [(''fullResponse'', JStr ''hello''),
                 (''metadata'', JObj [(''cached'', JBool True)])]),
        to_engine (SynthesizeSpeechCommand (JStr ''hello'') ''Joey''),
        to_console (logger_error ''Polly TTS error: engine unavailable''),
        to_console (console_error [LStr ''[Polly] TTS error:'', LStr ''engine unavailable''])]
     \<and> client_emitted (snd (handleTextInput ?R ''A'' ''hi'' ?w))
     = [(''A'', ''text_response'', JObj [(''response'', JStr ''hello''), (''message'', JStr ''hello''),
                                         (''type'', JStr ''cached'')]),
        (''A'', ''stream_complete'', JObj [(''fullResponse'', JStr ''hello''),
                                           (''metadata'', JObj [(''cached'', JBool True)])])]
     \<and> console (snd (handleTextInput ?R ''A'' ''hi'' ?w))
     = [logger_error ''Polly TTS error: engine unavailable'',
        console_error [LStr ''[Polly] TTS error:'', LStr ''engine unavailable'']]"
    using got sd hit tx w voice
      synthesis_failure_absorbed [OF fail, where c = "''A''" and got = JNull and q = "''hi''"
        and sd = "JObj [(''lastQuery'', JStr ''hi'')]" and cached = "JStr ''hello''"]
    by simp
  show ?thesis
    using fail hit T by blast
qed

section \<open>Credentials\<close>

text \<open>
  C8, as amended. The constructor throws when \<open>AWS_ACCESS_KEY_ID\<close> or
  \<open>AWS_SECRET_ACCESS_KEY\<close> is not set or is set to the empty string. When both are
  set to non-empty strings it succeeds, whatever else the environment holds; the region
  is \<open>AWS_REGION\<close>, or \<open>us-east-1\<close> when that is not set or empty.
\<close>

theorem polly_credentials:
  "(env_falsy (process_env R ''AWS_ACCESS_KEY_ID'')
      \<or> env_falsy (process_env R ''AWS_SECRET_ACCESS_KEY'')
     \<longrightarrow> PollyService_constructor R
           = Inl (Error ''AWS credentials not found in environment variables''))
   \<and> (process_env R ''AWS_ACCESS_KEY_ID'' = Some a \<and> a \<noteq> []
      \<and> process_env R ''AWS_SECRET_ACCESS_KEY'' = Some s \<and> s \<noteq> []
     \<longrightarrow> PollyService_constructor R
           = Inr \<lparr>region = env_or (process_env R ''AWS_REGION'') ''us-east-1'',
                  accessKeyId = a, secretAccessKey = s\<rparr>)"
  by (auto simp: PollyService_constructor_def env_falsy_def env_or_def)

text \<open>One credential missing; both present and no region configured.\<close>

theorem polly_credentials_witness:
  "env_falsy (process_env (test_runtime [] [''AWS_SECRET_ACCESS_KEY'' \<mapsto> ''s3cr3t''])
                ''AWS_ACCESS_KEY_ID'')
   \<and> PollyService_constructor (test_runtime [] [''AWS_SECRET_ACCESS_KEY'' \<mapsto> ''s3cr3t''])
       = Inl (Error ''AWS credentials not found in environment variables'')
   \<and> PollyService_constructor
        (test_runtime [] [''AWS_ACCESS_KEY_ID'' \<mapsto> ''AKIA'', ''AWS_SECRET_ACCESS_KEY'' \<mapsto> ''s3cr3t''])
       = Inr \<lparr>region = ''us-east-1'', accessKeyId = ''AKIA'', secretAccessKey = ''s3cr3t''\<rparr>"
proof -
  let ?R1 = "test_runtime [] [''AWS_SECRET_ACCESS_KEY'' \<mapsto> ''s3cr3t'']"
  let ?R2 = "test_runtime [] [''AWS_ACCESS_KEY_ID'' \<mapsto> ''AKIA'', ''AWS_SECRET_ACCESS_KEY'' \<mapsto> ''s3cr3t'']"
  have a: "env_falsy (process_env ?R1 ''AWS_ACCESS_KEY_ID'')"
    by (simp add: test_runtime_def env_falsy_def)
  have b: "process_env ?R2 ''AWS_ACCESS_KEY_ID'' = Some ''AKIA'' \<and> ''AKIA'' \<noteq> []
      \<and> process_env ?R2 ''AWS_SECRET_ACCESS_KEY'' = Some ''s3cr3t'' \<and> ''s3cr3t'' \<noteq> []"
    by (simp add: test_runtime_def)
  have c: "env_or (process_env ?R2 ''AWS_REGION'') ''us-east-1'' = ''us-east-1''"
    by (simp add: test_runtime_def env_or_def)
  show ?thesis
    using a b c polly_credentials [of ?R1] polly_credentials [of ?R2 "''AKIA''" "''s3cr3t''"]
    by simp
qed

text \<open>
  The claim as stated fails: with both variables present in the environment, the
  access key id being the empty string, the constructor throws.
\<close>

theorem empty_credential_counterexample:
  "process_env (test_runtime [] [''AWS_ACCESS_KEY_ID'' \<mapsto> [], ''AWS_SECRET_ACCESS_KEY'' \<mapsto> ''s3cr3t''])
      ''AWS_ACCESS_KEY_ID'' = Some []
   \<and> process_env (test_runtime [] [''AWS_ACCESS_KEY_ID'' \<mapsto> [], ''AWS_SECRET_ACCESS_KEY'' \<mapsto> ''s3cr3t''])
      ''AWS_SECRET_ACCESS_KEY'' = Some ''s3cr3t''
   \<and> PollyService_constructor
        (test_runtime [] [''AWS_ACCESS_KEY_ID'' \<mapsto> [], ''AWS_SECRET_ACCESS_KEY'' \<mapsto> ''s3cr3t''])
       = Inl (Error ''AWS credentials not found in environment variables'')"
  by (simp add: test_runtime_def PollyService_constructor_def env_falsy_def)

section \<open>The two session caches\<close>

text \<open>
  C9, as amended. Both variants use the key \<open>session:{sessionId}\<close>. Their \<open>set\<close>
  leaves the store in the same state; while the store answers, that is the JSON text
  of the payload under that key with a TTL of 1800 s. The variant with the map also
  puts the payload in its map, whatever the store does, and its \<open>set\<close> does not throw.
  While the store answers and less than 1800 s have passed since the \<open>set\<close>, both
  return the stored payload, if it survives JSON. In general \<open>get\<close> depends on what
  the store answers for the key:

  \<^item> a live text that is not empty and that \<open>JSON.parse\<close> reads: both return the value
    read;
  \<^item> no live entry (never set, or expired), or a live entry that is the empty text: the
    store-only variant returns \<open>null\<close>, the other the payload last set in this
    process (\<open>null\<close> if there is none);
  \<^item> a live text that \<open>JSON.parse\<close> rejects: the variant with the map returns the
    payload last set in this process, the store-only variant returns no value;
  \<^item> the store rejects the command: the variant with the map returns the payload last
    set in this process, the store-only variant returns no value.

  So the two can differ in the last three situations, and in no other.
\<close>

theorem session_variants:
  "SessionCache_key sid = ''session:'' @ sid
   \<and> StoreOnlySessionCache_key sid = ''session:'' @ sid
   \<and> snd (snd (SessionCache_set R sid v (m, r))) = snd (StoreOnlySessionCache_set R sid v r)
   \<and> fst (snd (SessionCache_set R sid v (m, r))) = m(sid \<mapsto> v)
   \<and> memory_get (m(sid \<mapsto> v)) sid = nullish v JNull
   \<and> fst (SessionCache_set R sid v (m, r)) = None
   \<and> (fault r = None \<longrightarrow>
        fst (StoreOnlySessionCache_set R sid v r) = None
      \<and> kv (snd (StoreOnlySessionCache_set R sid v r)) (''session:'' @ sid)
          = Some (json_stringify R v, rclock r + 1800000))
   \<and> (fault r = None \<and> json_parse R (json_stringify R v) = Inr v \<and> json_stringify R v \<noteq> []
        \<and> d < 1800000 \<longrightarrow>
        SessionCache_get R sid (apsnd (elapse d) (snd (SessionCache_set R sid v (m, r)))) = Inr v
      \<and> StoreOnlySessionCache_get R sid
          (elapse d (snd (StoreOnlySessionCache_set R sid v r))) = Inr v)
   \<and> (redis_get (''session:'' @ sid) r = Inr (Some t) \<and> t \<noteq> [] \<and> json_parse R t = Inr x \<longrightarrow>
        SessionCache_get R sid (m, r) = Inr x
      \<and> StoreOnlySessionCache_get R sid r = Inr x)
   \<and> (redis_get (''session:'' @ sid) r = Inr None
        \<or> redis_get (''session:'' @ sid) r = Inr (Some []) \<longrightarrow>
        SessionCache_get R sid (m, r) = Inr (memory_get m sid)
      \<and> StoreOnlySessionCache_get R sid r = Inr JNull)
   \<and> (redis_get (''session:'' @ sid) r = Inr (Some t) \<and> t \<noteq> [] \<and> json_parse R t = Inl e \<longrightarrow>
        SessionCache_get R sid (m, r) = Inr (memory_get m sid)
      \<and> StoreOnlySessionCache_get R sid r \<noteq> Inr y)
   \<and> (redis_get (''session:'' @ sid) r = Inl e \<longrightarrow>
        SessionCache_get R sid (m, r) = Inr (memory_get m sid)
      \<and> StoreOnlySessionCache_get R sid r \<noteq> Inr y)"
proof -
  have keys: "SessionCache_key sid = ''session:'' @ sid"
    "StoreOnlySessionCache_key sid = ''session:'' @ sid"
    by (simp_all add: key_defs)
  have sets: "snd (snd (SessionCache_set R sid v (m, r))) = snd (StoreOnlySessionCache_set R sid v r)
     \<and> fst (snd (SessionCache_set R sid v (m, r))) = m(sid \<mapsto> v)
     \<and> memory_get (m(sid \<mapsto> v)) sid = nullish v JNull
     \<and> fst (SessionCache_set R sid v (m, r)) = None"
    by (auto simp add: cache_defs key_defs redis_set_def memory_get_def Let_def
        split: option.splits)
  have written: "fst (StoreOnlySessionCache_set R sid v r) = None
      \<and> kv (snd (StoreOnlySessionCache_set R sid v r)) (''session:'' @ sid)
          = Some (json_stringify R v, rclock r + 1800000)"
    if "fault r = None"
    using that by (simp add: cache_defs key_defs redis_set_def)
  have trip: "SessionCache_get R sid (apsnd (elapse d) (snd (SessionCache_set R sid v (m, r)))) = Inr v
      \<and> StoreOnlySessionCache_get R sid
          (elapse d (snd (StoreOnlySessionCache_set R sid v r))) = Inr v"
    if "fault r = None \<and> json_parse R (json_stringify R v) = Inr v \<and> json_stringify R v \<noteq> []
        \<and> d < 1800000"
    using that by (simp add: cache_defs key_defs redis_set_def redis_get_def elapse_def)
  have hit: "SessionCache_get R sid (m, r) = Inr x \<and> StoreOnlySessionCache_get R sid r = Inr x"
    if "redis_get (''session:'' @ sid) r = Inr (Some t) \<and> t \<noteq> [] \<and> json_parse R t = Inr x"
    using that by (simp add: cache_defs key_defs)
  have miss: "SessionCache_get R sid (m, r) = Inr (memory_get m sid)
      \<and> StoreOnlySessionCache_get R sid r = Inr JNull"
    if "redis_get (''session:'' @ sid) r = Inr None
        \<or> redis_get (''session:'' @ sid) r = Inr (Some [])"
    using that by (auto simp add: cache_defs key_defs)
  have garbled: "SessionCache_get R sid (m, r) = Inr (memory_get m sid)
      \<and> StoreOnlySessionCache_get R sid r \<noteq> Inr y"
    if "redis_get (''session:'' @ sid) r = Inr (Some t) \<and> t \<noteq> [] \<and> json_parse R t = Inl e"
    using that by (simp add: cache_defs key_defs)
  have down: "SessionCache_get R sid (m, r) = Inr (memory_get m sid)
      \<and> StoreOnlySessionCache_get R sid r \<noteq> Inr y"
    if "redis_get (''session:'' @ sid) r = Inl e"
    using that by (simp add: cache_defs key_defs)
  show ?thesis
    using keys sets written trip hit miss garbled down by blast
qed

text \<open>
  The situations at a concrete store: a \<open>set\<close> and a \<open>get\<close> just inside the TTL; a
  \<open>get\<close> of a key that was never set, with a payload in the map; a live entry whose
  text the parser rejects; and the store rejecting commands.
\<close>

theorem session_variants_witness:
  "fault empty_redis = None
   \<and> kv (snd (StoreOnlySessionCache_set (test_runtime [JStr ''hello''] Map.empty) ''s''
                 (JStr ''hello'') empty_redis)) ''session:s''
       = Some (json_stringify (test_runtime [JStr ''hello''] Map.empty) (JStr ''hello''), 1800000)
   \<and> SessionCache_get (test_runtime [JStr ''hello''] Map.empty) ''s''
        (apsnd (elapse 1799999)
           (snd (SessionCache_set (test_runtime [JStr ''hello''] Map.empty) ''s''
                   (JStr ''hello'') (Map.empty, empty_redis))))
       = Inr (JStr ''hello'')
   \<and> StoreOnlySessionCache_get (test_runtime [JStr ''hello''] Map.empty) ''s''
        (elapse 1799999
           (snd (StoreOnlySessionCache_set (test_runtime [JStr ''hello''] Map.empty) ''s''
                   (JStr ''hello'') empty_redis)))
       = Inr (JStr ''hello'')
   \<and> redis_get ''session:s''
        (empty_redis\<lparr>kv := [''session:s'' \<mapsto> (''true'', 1800000)]\<rparr>) = Inr (Some ''true'')
   \<and> SessionCache_get (test_runtime [JBool True] Map.empty) ''s''
        ([''s'' \<mapsto> JStr ''kept''], empty_redis\<lparr>kv := [''session:s'' \<mapsto> (''true'', 1800000)]\<rparr>)
       = Inr (JBool True)
   \<and> StoreOnlySessionCache_get (test_runtime [JBool True] Map.empty) ''s''
        (empty_redis\<lparr>kv := [''session:s'' \<mapsto> (''true'', 1800000)]\<rparr>)
       = Inr (JBool True)
   \<and> redis_get ''session:s'' empty_redis = Inr None
   \<and> SessionCache_get (test_runtime [] Map.empty) ''s'' ([''s'' \<mapsto> JStr ''kept''], empty_redis)
       = Inr (JStr ''kept'')
   \<and> StoreOnlySessionCache_get (test_runtime [] Map.empty) ''s'' empty_redis = Inr JNull
   \<and> json_parse (test_runtime [] Map.empty) ''true'' = Inl (SyntaxError ''Unexpected token'')
   \<and> SessionCache_get (test_runtime [] Map.empty) ''s''
        ([''s'' \<mapsto> JStr ''kept''], empty_redis\<lparr>kv := [''session:s'' \<mapsto> (''true'', 1800000)]\<rparr>)
       = Inr (JStr ''kept'')
   \<and> StoreOnlySessionCache_get (test_runtime [] Map.empty) ''s''
        (empty_redis\<lparr>kv := [''session:s'' \<mapsto> (''true'', 1800000)]\<rparr>)
       \<noteq> Inr (JStr ''kept'')
   \<and> redis_get ''session:s'' (empty_redis\<lparr>fault := Some (Error ''Connection is closed.'')\<rparr>)
       = Inl (Error ''Connection is closed.'')
   \<and> SessionCache_get (test_runtime [] Map.empty) ''s''
        ([''s'' \<mapsto> JStr ''kept''], empty_redis\<lparr>fault := Some (Error ''Connection is closed.'')\<rparr>)
       = Inr (JStr ''kept'')
   \<and> StoreOnlySessionCache_get (test_runtime [] Map.empty) ''s''
        (empty_redis\<lparr>fault := Some (Error ''Connection is closed.'')\<rparr>)
       \<noteq> Inr (JStr ''kept'')"
proof -
  let ?R = "test_runtime [JStr ''hello''] Map.empty"
  let ?Rb = "test_runtime [JBool True] Map.empty"
  let ?Rn = "test_runtime [] Map.empty"
  let ?m = "[''s'' \<mapsto> JStr ''kept'']"
  let ?live = "empty_redis\<lparr>kv := [''session:s'' \<mapsto> (''true'', 1800000)]\<rparr>"
  let ?down = "empty_redis\<lparr>fault := Some (Error ''Connection is closed.'')\<rparr>"
  have up: "fault empty_redis = None" "rclock empty_redis = 0"
    by (simp_all add: empty_redis_def)
  have c1: "json_parse ?R (json_stringify ?R (JStr ''hello'')) = Inr (JStr ''hello'')"
    by (simp add: test_runtime_def parse_known_def)
  have c2: "json_stringify ?R (JStr ''hello'') \<noteq> []"
    by (simp add: test_runtime_def quoted_def)
  have live: "redis_get (''session:'' @ ''s'') ?live = Inr (Some ''true'')"
    by (simp add: redis_get_def empty_redis_def)
  have pb: "json_parse ?Rb ''true'' = Inr (JBool True)"
    by (simp add: test_runtime_def parse_known_def)
  have p0: "json_parse ?Rn ''true'' = Inl (SyntaxError ''Unexpected token'')"
    by (simp add: test_runtime_def parse_known_def)
  have none: "redis_get (''session:'' @ ''s'') empty_redis = Inr None"
    by (simp add: redis_get_def empty_redis_def)
  have down: "redis_get (''session:'' @ ''s'') ?down = Inl (Error ''Connection is closed.'')"
    by (simp add: redis_get_def)
  have mg: "memory_get ?m ''s'' = JStr ''kept''"
    by (simp add: memory_get_def nullish_def)
  have a: "kv (snd (StoreOnlySessionCache_set ?R ''s'' (JStr ''hello'') empty_redis)) ''session:s''
       = Some (json_stringify ?R (JStr ''hello''), 1800000)
     \<and> SessionCache_get ?R ''s''
        (apsnd (elapse 1799999)
           (snd (SessionCache_set ?R ''s'' (JStr ''hello'') (Map.empty, empty_redis))))
       = Inr (JStr ''hello'')
     \<and> StoreOnlySessionCache_get ?R ''s''
        (elapse 1799999 (snd (StoreOnlySessionCache_set ?R ''s'' (JStr ''hello'') empty_redis)))
       = Inr (JStr ''hello'')"
    using up c1 c2
      session_variants [where R = ?R and sid = "''s''" and v = "JStr ''hello''"
        and m = Map.empty and r = empty_redis and d = 1799999 and t = "''true''"
        and x = JNull and e = "Error []" and y = JNull]
    by simp
  have b: "SessionCache_get ?Rb ''s'' (?m, ?live) = Inr (JBool True)
     \<and> StoreOnlySessionCache_get ?Rb ''s'' ?live = Inr (JBool True)"
    using live pb
      session_variants [where R = ?Rb and sid = "''s''" and v = JNull
        and m = ?m and r = ?live and d = 0 and t = "''true''"
        and x = "JBool True" and e = "Error []" and y = JNull]
    by simp
  have n: "SessionCache_get ?Rn ''s'' (?m, empty_redis) = Inr (JStr ''kept'')
     \<and> StoreOnlySessionCache_get ?Rn ''s'' empty_redis = Inr JNull"
    using none mg
      session_variants [where R = ?Rn and sid = "''s''" and v = JNull
        and m = ?m and r = empty_redis and d = 0 and t = "''true''"
        and x = JNull and e = "Error []" and y = JNull]
    by simp
  have g: "SessionCache_get ?Rn ''s'' (?m, ?live) = Inr (JStr ''kept'')
     \<and> StoreOnlySessionCache_get ?Rn ''s'' ?live \<noteq> Inr (JStr ''kept'')"
    using live p0 mg
      session_variants [where R = ?Rn and sid = "''s''" and v = JNull
        and m = ?m and r = ?live and d = 0 and t = "''true''"
        and x = JNull and e = "SyntaxError ''Unexpected token''" and y = "JStr ''kept''"]
    by simp
  have f: "SessionCache_get ?Rn ''s'' (?m, ?down) = Inr (JStr ''kept'')
     \<and> StoreOnlySessionCache_get ?Rn ''s'' ?down \<noteq> Inr (JStr ''kept'')"
    using down mg
      session_variants [where R = ?Rn and sid = "''s''" and v = JNull
        and m = ?m and r = ?down and d = 0 and t = "''true''"
        and x = JNull and e = "Error ''Connection is closed.''" and y = "JStr ''kept''"]
    by simp
  have live': "redis_get ''session:s'' ?live = Inr (Some ''true'')"
    and none': "redis_get ''session:s'' empty_redis = Inr None"
    and down': "redis_get ''session:s'' ?down = Inl (Error ''Connection is closed.'')"
    using live none down by simp_all
  show ?thesis
    using up(1) a b n g f live' none' down' p0 by blast
qed

text \<open>
  The claim as stated fails: every store operation succeeds (both \<open>set\<close>s complete,
  and the store answers the later read with "no entry"), and still the two variants
  return different values once the 1800 s have passed.
\<close>

theorem session_variants_differ_counterexample:
  "fst (SessionCache_set (test_runtime [] Map.empty) ''s'' (JObj [(''connectedAt'', JNum 0)])
          (Map.empty, empty_redis)) = None
   \<and> fst (StoreOnlySessionCache_set (test_runtime [] Map.empty) ''s''
          (JObj [(''connectedAt'', JNum 0)]) empty_redis) = None
   \<and> redis_get (SessionCache_key ''s'')
        (elapse 1800001
          (snd (StoreOnlySessionCache_set (test_runtime [] Map.empty) ''s''
                  (JObj [(''connectedAt'', JNum 0)]) empty_redis))) = Inr None
   \<and> SessionCache_get (test_runtime [] Map.empty) ''s''
        (apsnd (elapse 1800001)
           (snd (SessionCache_set (test_runtime [] Map.empty) ''s''
                   (JObj [(''connectedAt'', JNum 0)]) (Map.empty, empty_redis))))
       = Inr (JObj [(''connectedAt'', JNum 0)])
   \<and> StoreOnlySessionCache_get (test_runtime [] Map.empty) ''s''
        (elapse 1800001
           (snd (StoreOnlySessionCache_set (test_runtime [] Map.empty) ''s''
                   (JObj [(''connectedAt'', JNum 0)]) empty_redis)))
       = Inr JNull"
  by (simp add: cache_defs key_defs redis_get_def redis_set_def elapse_def empty_redis_def
      memory_get_def nullish_def)

section \<open>Dispatch\<close>

text \<open>
  C10. Nothing reaches the socket layer from \<open>dispatch\<close>, whatever the registered
  handler does with the message. So for every sequence of messages the socket layer
  gets to the end of the sequence, and the world it ends in is the one obtained by
  handing every message, in order, to the handler, each exception leaving one error
  line on the console. With no handler registered the messages are dropped.
\<close>

theorem dispatch_survives:
  "fst (dispatch mh m w) = None
   \<and> socket_layer (Some h) ms w = (None, foldl (handled h) w ms)
   \<and> socket_layer None ms w = (None, w)"
proof -
  have a: "socket_layer (Some h) ms w = (None, foldl (handled h) w ms)"
    by (induction ms arbitrary: w) (simp_all add: dispatch_handled)
  have b: "socket_layer None ms w = (None, w)"
    by (induction ms) (simp_all add: dispatch_def)
  show ?thesis
    using a b dispatch_absorbs by simp
qed

text \<open>
  A message the gateway's handler throws on (a \<open>text_response\<close> whose \<open>response\<close> is
  a number) followed by an \<open>audio_end\<close>: the exception is logged, and the second
  message is handled and reaches the active client.
\<close>

theorem dispatch_survives_witness:
  "handlePythonMessage (test_runtime [] Map.empty)
      (JObj [(''type'', JStr ''TEXT_RESPONSE''), (''response'', JNum 5)])
      (first_world\<lparr>activeFrontendClient := Some ''A'', server_sockets := [''A'']\<rparr>)
     = (Some (TypeError ''responseText.substring is not a function''),
        first_world\<lparr>activeFrontendClient := Some ''A'', server_sockets := [''A'']\<rparr>)
   \<and> fst (socket_layer (Some (handlePythonMessage (test_runtime [] Map.empty)))
        [JObj [(''type'', JStr ''TEXT_RESPONSE''), (''response'', JNum 5)],
         JObj [(''type'', JStr ''AUDIO_END'')]]
        (first_world\<lparr>activeFrontendClient := Some ''A'', server_sockets := [''A'']\<rparr>)) = None
   \<and> client_emitted (snd (socket_layer (Some (handlePythonMessage (test_runtime [] Map.empty)))
        [JObj [(''type'', JStr ''TEXT_RESPONSE''), (''response'', JNum 5)],
         JObj [(''type'', JStr ''AUDIO_END'')]]
        (first_world\<lparr>activeFrontendClient := Some ''A'', server_sockets := [''A'']\<rparr>)))
       = [(''A'', ''audio_end'', JObj [(''type'', JStr ''AUDIO_END'')])]
   \<and> console (snd (socket_layer (Some (handlePythonMessage (test_runtime [] Map.empty)))
        [JObj [(''type'', JStr ''TEXT_RESPONSE''), (''response'', JNum 5)],
         JObj [(''type'', JStr ''AUDIO_END'')]]
        (first_world\<lparr>activeFrontendClient := Some ''A'', server_sockets := [''A'']\<rparr>)))
       = [console_error [LStr ''Error in Python message handler:'',
                         LExn (TypeError ''responseText.substring is not a function'')]]"
proof -
  let ?R = "test_runtime [] Map.empty"
  let ?w = "first_world\<lparr>activeFrontendClient := Some ''A'', server_sockets := [''A'']\<rparr>"
  let ?bad = "JObj [(''type'', JStr ''TEXT_RESPONSE''), (''response'', JNum 5)]"
  let ?good = "JObj [(''type'', JStr ''AUDIO_END'')]"
  have bad: "handlePythonMessage ?R ?bad ?w
     = (Some (TypeError ''responseText.substring is not a function''), ?w)"
    by (simp add: handlePythonMessage_def handleTextResponse_def js_or_def Let_def)
  have good: "handlePythonMessage ?R ?good w' = (None, emit_if (getActiveClient w') ''audio_end'' ?good w')" for w'
    by (simp add: handlePythonMessage_def Let_def)
  show ?thesis
    using bad dispatch_survives [where h = "handlePythonMessage ?R" and ms = "[?bad, ?good]" and w = ?w]
    by (simp add: handled_def good emit_if_def getActiveClient_def console_log_def
        client_emit_def first_world_def)
qed

end
